theory Spec2Isabelle
  imports Complex_Main "HOL-Library.Sublist" "HOL-Library.AList"
begin


section \<open>Python values, exceptions and effects\<close>

text \<open>
  The program is \<^verbatim>\<open>src/generate.py\<close>: a generation client, a usage counter, a retrieval
  gateway, hallucination detectors and the inference loops of the RAG variants.

  Exceptions are values: a computation that may raise returns \<open>pyerr + 'a\<close>, with \<open>Inl\<close>
  the exception. Only the exception class is kept, not its message.
\<close>

datatype pyerr =
    ValueError | NameError | UnboundLocalError | TypeError | KeyError | IndexError
  | AssertionError | AttributeError | NotImplementedError | RuntimeError

text \<open>
  The mutable state a call can change: the \<^verbatim>\<open>Counter\<close> object of the RAG instance, and two
  counts kept for the external collaborators: how many generation calls the language
  model has served (a sampled model may answer the same prompt differently each time, so
  its answer is a function of the call's number too) and how many queries the retriever
  backends have served.
\<close>

record counter =
  retrieve :: int
  generate :: int
  hallucinated :: int
  token :: int
  sentence :: int

record world =
  counter :: counter
  lm_calls :: nat
  backend_retrievals :: nat

definition Counter_init :: counter where
  "Counter_init = \<lparr>retrieve = 0, generate = 0, hallucinated = 0, token = 0, sentence = 0\<rparr>"

type_synonym 'a py = "world \<Rightarrow> (pyerr + 'a) \<times> world"

definition ret :: "'a \<Rightarrow> 'a py" where
  "ret x = (\<lambda>w. (Inr x, w))"

definition raise :: "pyerr \<Rightarrow> 'a py" where
  "raise e = (\<lambda>w. (Inl e, w))"

definition lift :: "pyerr + 'a \<Rightarrow> 'a py" where
  "lift r = (\<lambda>w. (r, w))"

definition modify :: "(world \<Rightarrow> world) \<Rightarrow> unit py" where
  "modify f = (\<lambda>w. (Inr (), f w))"

definition bnd :: "'a py \<Rightarrow> ('a \<Rightarrow> 'b py) \<Rightarrow> 'b py" where
  "bnd m f = (\<lambda>w. case m w of (Inl e, w') \<Rightarrow> (Inl e, w') | (Inr x, w') \<Rightarrow> f x w')"

definition bnd_e :: "pyerr + 'a \<Rightarrow> ('a \<Rightarrow> pyerr + 'b) \<Rightarrow> pyerr + 'b" where
  "bnd_e m f = (case m of Inl e \<Rightarrow> Inl e | Inr x \<Rightarrow> f x)"

text \<open>An attribute that \<^verbatim>\<open>__init__\<close> sets only on one path: reading it unset raises.\<close>

definition attr :: "'a option \<Rightarrow> pyerr + 'a" where
  "attr a = (case a of None \<Rightarrow> Inl AttributeError | Some x \<Rightarrow> Inr x)"

subsection \<open>Strings and lists\<close>

text \<open>
  A Python \<^verbatim>\<open>str\<close> is a \<open>string\<close>, one \<open>char\<close> per character: the model covers the texts
  whose characters are among the first 256 code points. \<open>find_str s sub\<close> is
  \<^verbatim>\<open>s.find(sub)\<close>: the lowest index of an occurrence, or \<open>-1\<close>.
\<close>

definition nl :: string where
  "nl = [CHR 0x0A]"

fun find_from :: "nat \<Rightarrow> string \<Rightarrow> string \<Rightarrow> int" where
  "find_from i [] sub = (if sub = [] then int i else - 1)"
| "find_from i (c # cs) sub = (if prefix sub (c # cs) then int i else find_from (Suc i) cs sub)"

definition find_str :: "string \<Rightarrow> string \<Rightarrow> int" where
  "find_str s sub = find_from 0 s sub"

definition contains :: "string \<Rightarrow> string \<Rightarrow> bool" where
  \<comment> \<open>\<^verbatim>\<open>sub in s\<close>\<close>
  "contains sub s = (find_str s sub \<noteq> - 1)"

definition is_space :: "char \<Rightarrow> bool" where
  \<comment> \<open>the characters \<^verbatim>\<open>str.isspace\<close> accepts among the first 256 code points\<close>
  "is_space c = (c \<in> set [CHR '' '', CHR 0x09, CHR 0x0A, CHR 0x0B, CHR 0x0C, CHR 0x0D,
                            CHR 0x1C, CHR 0x1D, CHR 0x1E, CHR 0x1F, CHR 0x85, CHR 0xA0])"

definition strip_chars :: "string \<Rightarrow> string \<Rightarrow> string" where
  \<comment> \<open>\<^verbatim>\<open>s.strip(chars)\<close>\<close>
  "strip_chars chars s =
     rev (dropWhile (\<lambda>c. c \<in> set chars) (rev (dropWhile (\<lambda>c. c \<in> set chars) s)))"

definition strip :: "string \<Rightarrow> string" where
  \<comment> \<open>\<^verbatim>\<open>s.strip()\<close>\<close>
  "strip s = rev (dropWhile is_space (rev (dropWhile is_space s)))"

fun split_on :: "char \<Rightarrow> string \<Rightarrow> string list" where
  \<comment> \<open>\<^verbatim>\<open>s.split(sep)\<close> for a separator of one character\<close>
  "split_on sep [] = [[]]"
| "split_on sep (c # cs) =
     (if c = sep then [] # split_on sep cs
      else (case split_on sep cs of [] \<Rightarrow> [[c]] | x # xs \<Rightarrow> (c # x) # xs))"

fun join :: "string \<Rightarrow> string list \<Rightarrow> string" where
  \<comment> \<open>\<^verbatim>\<open>sep.join(xs)\<close>\<close>
  "join sep [] = []"
| "join sep [x] = x"
| "join sep (x # y # ys) = x @ sep @ join sep (y # ys)"

fun replace_from :: "string \<Rightarrow> string \<Rightarrow> string \<Rightarrow> string" where
  "replace_from old new [] = []"
| "replace_from old new (c # cs) =
     (if old \<noteq> [] \<and> prefix old (c # cs)
      then new @ replace_from old new (drop (length old - 1) cs)
      else c # replace_from old new cs)"

definition replace :: "string \<Rightarrow> string \<Rightarrow> string \<Rightarrow> string" where
  \<comment> \<open>\<^verbatim>\<open>s.replace(old, new)\<close>; an empty \<open>old\<close> matches before every character and at the end\<close>
  "replace s old new =
     (if old = [] then new @ concat (map (\<lambda>c. c # new) s) else replace_from old new s)"

text \<open>
  Python's slice \<^verbatim>\<open>xs[a:b]\<close> and index \<^verbatim>\<open>xs[i]\<close>: a negative position counts from the end, a
  slice clamps to the list and never raises, an index out of range raises \<^verbatim>\<open>IndexError\<close>.
\<close>

definition clamp_pos :: "nat \<Rightarrow> int \<Rightarrow> nat" where
  "clamp_pos n i = (if i < 0 then nat (max 0 (int n + i)) else min n (nat i))"

definition slice :: "'a list \<Rightarrow> int \<Rightarrow> int \<Rightarrow> 'a list" where
  \<comment> \<open>\<^verbatim>\<open>xs[a:b]\<close>\<close>
  "slice xs a b = (let lo = clamp_pos (length xs) a; hi = clamp_pos (length xs) b
                   in take (hi - lo) (drop lo xs))"

definition slice_from :: "'a list \<Rightarrow> int \<Rightarrow> 'a list" where
  \<comment> \<open>\<^verbatim>\<open>xs[a:]\<close>\<close>
  "slice_from xs a = drop (clamp_pos (length xs) a) xs"

definition slice_to :: "'a list \<Rightarrow> int \<Rightarrow> 'a list" where
  \<comment> \<open>\<^verbatim>\<open>xs[:b]\<close>\<close>
  "slice_to xs b = take (clamp_pos (length xs) b) xs"

definition getitem :: "'a list \<Rightarrow> int \<Rightarrow> pyerr + 'a" where
  \<comment> \<open>\<^verbatim>\<open>xs[i]\<close>\<close>
  "getitem xs i =
     (if 0 \<le> i \<and> i < int (length xs) then Inr (xs ! nat i)
      else if i < 0 \<and> - int (length xs) \<le> i then Inr (xs ! nat (int (length xs) + i))
      else Inl IndexError)"

definition lookup :: "('k \<times> 'v) list \<Rightarrow> 'k \<Rightarrow> pyerr + 'v" where
  \<comment> \<open>\<^verbatim>\<open>d[k]\<close> on a dict\<close>
  "lookup d k = (case map_of d k of None \<Rightarrow> Inl KeyError | Some v \<Rightarrow> Inr v)"

definition pop :: "'k \<Rightarrow> ('k \<times> 'v) list \<Rightarrow> pyerr + ('v \<times> ('k \<times> 'v) list)" where
  \<comment> \<open>\<^verbatim>\<open>d.pop(k)\<close>: the value and the dict without the key\<close>
  "pop k d = (case map_of d k of None \<Rightarrow> Inl KeyError | Some v \<Rightarrow> Inr (v, AList.delete k d))"

text \<open>
  A tuple a function returns is the list of its items, so that unpacking it into a fixed
  number of names can fail as it does in Python (\<^verbatim>\<open>ValueError\<close>: too many or not enough
  values to unpack).
\<close>

datatype pyval =
    Str string
  | StrList "string list"
  | Ids "nat list list"
  | Floats "real list"
  | Outputs
  | PyNone

definition unpack3 :: "pyval list \<Rightarrow> pyerr + (pyval \<times> pyval \<times> pyval)" where
  "unpack3 t = (case t of [a, b, c] \<Rightarrow> Inr (a, b, c) | _ \<Rightarrow> Inl ValueError)"


definition as_str :: "pyval \<Rightarrow> pyerr + string" where
  "as_str v = (case v of Str s \<Rightarrow> Inr s | _ \<Rightarrow> Inl TypeError)"

definition as_str_list :: "pyval \<Rightarrow> pyerr + string list" where
  "as_str_list v = (case v of StrList s \<Rightarrow> Inr s | _ \<Rightarrow> Inl TypeError)"

definition as_floats :: "pyval \<Rightarrow> pyerr + real list" where
  "as_floats v = (case v of Floats s \<Rightarrow> Inr s | _ \<Rightarrow> Inl TypeError)"


section \<open>External collaborators\<close>

text \<open>
  The language model, its tokenizer, the spaCy pipeline and the retriever backends are
  not code of this repository: they are the fields of a record, and every theorem holds
  for whatever functions stand there.
\<close>

type_synonym kwargs = "(string \<times> string) list"

text \<open>
  The object stored as a retriever, by its class. \<^verbatim>\<open>_retriever_selector\<close> can also hand
  back an exception instance (see there).
\<close>

datatype retriever =
    BM25 kwargs
  | SGPT kwargs
  | DatabricksVectorSearch kwargs
  | ExceptionInstance pyerr

fun class_name :: "retriever \<Rightarrow> string" where
  \<comment> \<open>\<^verbatim>\<open>retriever.__class__.__name__\<close>\<close>
  "class_name (BM25 _) = ''BM25''"
| "class_name (SGPT _) = ''SGPT''"
| "class_name (DatabricksVectorSearch _) = ''DatabricksVectorSearch''"
| "class_name (ExceptionInstance _) = ''NotImplementedError''"

record backend =
  chat_template :: "string \<Rightarrow> bool \<Rightarrow> string"
    \<comment> \<open>\<^verbatim>\<open>apply_chat_template\<close> of the one user message, with \<^verbatim>\<open>enable_thinking\<close>\<close>
  encode :: "string \<Rightarrow> nat list"
    \<comment> \<open>the tokenizer: the input ids of a text\<close>
  decode :: "nat list \<Rightarrow> string"
  decode_skip_special :: "nat list \<Rightarrow> string"
  convert_ids_to_tokens :: "nat list \<Rightarrow> string list"
  tokenize :: "string \<Rightarrow> string list"
  lm_generate :: "nat \<Rightarrow> nat list \<Rightarrow> int \<Rightarrow> nat list"
    \<comment> \<open>\<^verbatim>\<open>model.generate\<close>: call number, input ids, \<^verbatim>\<open>max_new_tokens\<close>; the sequence
        returned starts with the input\<close>
  transition_scores :: "nat \<Rightarrow> nat list \<Rightarrow> int \<Rightarrow> real list"
    \<comment> \<open>\<^verbatim>\<open>compute_transition_scores(...)[0]\<close> of the same call\<close>
  attentions :: "nat list list \<Rightarrow> real list list list list list"
    \<comment> \<open>\<^verbatim>\<open>model(ids, output_attentions=True).attentions\<close>: layer, batch, head, query, key\<close>
  space_token :: string
  eos_token :: string
  newline_token :: nat
  newline_glyph :: string
    \<comment> \<open>the token text of a line break, \<^verbatim>\<open>U+010A\<close> in the source (outside the 8-bit characters
        of this model, hence a parameter)\<close>
  nlp_sents :: "string \<Rightarrow> string list"
    \<comment> \<open>\<^verbatim>\<open>[sent.text for sent in nlp(text).sents]\<close>\<close>
  nlp_ents :: "string \<Rightarrow> string list"
    \<comment> \<open>\<^verbatim>\<open>[ent.text for ent in nlp(text).ents]\<close>\<close>
  nlp_pos :: "string \<Rightarrow> (string \<times> string) list"
    \<comment> \<open>\<^verbatim>\<open>[(token.text, token.pos_) for token in nlp(text)]\<close>\<close>
  retriever_retrieve :: "retriever \<Rightarrow> string \<Rightarrow> int \<Rightarrow> int option \<Rightarrow> string list list"
    \<comment> \<open>\<^verbatim>\<open>retriever.retrieve(queries=[query], topk=..., [max_query_length=...])\<close>: the
        passages found, one list per query\<close>

section \<open>BasicGenerator.generate\<close>

fun index_of :: "'a \<Rightarrow> 'a list \<Rightarrow> nat option" where
  \<comment> \<open>\<^verbatim>\<open>xs.index(x)\<close>, \<open>None\<close> where Python raises \<^verbatim>\<open>ValueError\<close>\<close>
  "index_of x [] = None"
| "index_of x (y # ys) = (if x = y then Some 0 else map_option Suc (index_of x ys))"

definition think_end :: "nat list \<Rightarrow> nat" where
  \<comment> \<open>the position after the last \<^verbatim>\<open></think>\<close> token (id 151668), 0 when there is none\<close>
  "think_end generated_ids =
     (case index_of 151668 (rev generated_ids) of
        Some k \<Rightarrow> length generated_ids - k
      | None \<Rightarrow> 0)"

definition BasicGenerator_generate ::
  "backend \<Rightarrow> string \<Rightarrow> int \<Rightarrow> bool \<Rightarrow> bool \<Rightarrow> pyval list py" where
  "BasicGenerator_generate be input_text max_length thinking return_logprobs = (\<lambda>w.
     let text = chat_template be input_text thinking;
         input_ids = encode be text;
         input_length = length input_ids;
         k = lm_calls w;
         w' = w\<lparr>lm_calls := Suc k\<rparr>;
         sequence = lm_generate be k input_ids max_length;
         generated_ids = drop input_length sequence
     in if return_logprobs then
          let text = decode be generated_ids;
              tokens = map (\<lambda>t. decode be [t]) generated_ids;
              logprobs = transition_scores be k input_ids max_length
          in if length tokens = length logprobs
             then (Inr [Str text, Ids [generated_ids], Floats logprobs, Outputs], w')
             else (Inl AssertionError, w')
        else
          let index = think_end generated_ids;
              text = strip_chars nl (decode_skip_special be (drop index generated_ids))
          in (Inr [Str text, PyNone, PyNone, PyNone], w'))"

section \<open>Configuration and the retrieval gateway (BasicRAG)\<close>

text \<open>
  The options \<^verbatim>\<open>__init__\<close> copies from \<^verbatim>\<open>args\<close> onto the instance. Those the code tests
  for presence (\<^verbatim>\<open>"..." in self.__dict__\<close>) are optional.
\<close>

record config =
  model_name_or_path :: string
  rag_method :: string
  retriever_configs :: "(string \<times> kwargs) list list option"
  query_formulation :: string
  query_decomposition :: bool
  hallucination_threshold :: real
  sentence_solver :: string
  entity_solver :: string
  retrieve_topk :: int
  generate_max_length :: int
  fix_length :: int
  use_counter :: bool
  enable_thinking :: bool
  check_real_words :: "bool option"
  retrieve_keep_top_k :: "int option"
  retrieve_keep_ratio :: "real option"

record rag =
  args :: config
  retrievers :: "(string \<times> string \<times> retriever) list option"
  multi_vector_index :: "bool option"

definition BasicRAG_retriever_selector :: "string \<Rightarrow> kwargs \<Rightarrow> pyerr + retriever" where
  \<comment> \<open>\<^verbatim>\<open>_retriever_selector\<close>: the last branch \<^emph>\<open>returns\<close> the exception object. The call
      \<^verbatim>\<open>BM25(tokenizer=..., engine=..., **kwargs)\<close> raises \<^verbatim>\<open>TypeError\<close> when \<^verbatim>\<open>kwargs\<close> repeats one
      of the two keywords; what the constructors of the retrievers do with their arguments
      is not code of this program\<close>
  "BasicRAG_retriever_selector retriever_type kw =
     (if retriever_type = ''BM25''
      then (if ''tokenizer'' \<in> fst ` set kw \<or> ''engine'' \<in> fst ` set kw
            then Inl TypeError else Inr (BM25 kw))
      else if retriever_type = ''SGPT'' then Inr (SGPT kw)
      else if retriever_type = ''DatabricksVectorSearch'' then Inr (DatabricksVectorSearch kw)
      else Inr (ExceptionInstance NotImplementedError))"

fun init_retrievers ::
  "(string \<times> kwargs) list list \<Rightarrow> (string \<times> string \<times> retriever) list
     \<Rightarrow> pyerr + (string \<times> string \<times> retriever) list" where
  \<comment> \<open>the loop of \<^verbatim>\<open>__init__\<close> over \<^verbatim>\<open>retriever_configs\<close>\<close>
  "init_retrievers [] acc = Inr acc"
| "init_retrievers (cfg # rest) acc =
     (case cfg of
        [] \<Rightarrow> Inl IndexError
      | (retriever_name, config_dict) # _ \<Rightarrow>
          bnd_e (pop ''retriever_type'' config_dict) (\<lambda>(retriever_type, d1).
          bnd_e (pop ''description'' d1) (\<lambda>(description, kw).
          bnd_e (BasicRAG_retriever_selector retriever_type kw) (\<lambda>r.
          init_retrievers rest (AList.update retriever_name (description, r) acc)))))"

definition BasicRAG_init :: "config \<Rightarrow> pyerr + rag" where
  "BasicRAG_init a =
     (case retriever_configs a of
        None \<Rightarrow> Inr \<lparr>args = a, retrievers = None, multi_vector_index = None\<rparr>
      | Some cs \<Rightarrow>
          bnd_e (init_retrievers cs []) (\<lambda>rs.
          Inr \<lparr>args = a, retrievers = Some rs, multi_vector_index = Some (length cs \<noteq> 1)\<rparr>))"

definition add_retrieve :: "world \<Rightarrow> world" where
  \<comment> \<open>\<^verbatim>\<open>self.counter.retrieve += 1\<close>\<close>
  "add_retrieve w = w\<lparr>counter := (counter w)\<lparr>retrieve := retrieve (counter w) + 1\<rparr>\<rparr>"

definition call_retriever ::
  "backend \<Rightarrow> retriever \<Rightarrow> string \<Rightarrow> int \<Rightarrow> int option \<Rightarrow> string list list py" where
  "call_retriever be r query topk mql = (\<lambda>w.
     (Inr (retriever_retrieve be r query topk mql),
      w\<lparr>backend_retrievals := Suc (backend_retrievals w)\<rparr>))"

definition BasicRAG_private_retrieve ::
  "backend \<Rightarrow> string \<Rightarrow> retriever \<Rightarrow> int \<Rightarrow> int \<Rightarrow> string list py" where
  \<comment> \<open>\<^verbatim>\<open>_retrieve\<close>\<close>
  "BasicRAG_private_retrieve be query r topk max_query_length =
     bnd (modify add_retrieve) (\<lambda>_.
     let retriever_type = class_name r in
     bnd (if retriever_type = ''BM25'' then call_retriever be r query topk (Some max_query_length)
          else if retriever_type = ''SGPT'' then call_retriever be r query topk None
          else if retriever_type = ''DatabricksVectorSearch'' then call_retriever be r query topk None
          else raise NotImplementedError) (\<lambda>docs.
     lift (getitem docs 0)))"

definition index_name :: "string \<Rightarrow> string" where
  \<comment> \<open>\<^verbatim>\<open>ret.split("-")[-1].strip()\<close>\<close>
  "index_name line = strip (last (split_on CHR ''-'' line))"

definition index_selection_prompt :: "(string \<times> string \<times> retriever) list \<Rightarrow> string \<Rightarrow> string" where
  "index_selection_prompt rs query =
     ''Return which vector indices to select based on the query and index descriptions.'' @ nl
       @ ''User query: '' @ query @ nl
       @ ''Vector Index Summary:'' @ nl
       @ concat (map (\<lambda>(k, description, _). ''- '' @ k @ '': '' @ description @ nl) rs)
       @ ''Output ONLY your index selection(s) in bullet points (''
       @ [CHR 0x27, CHR ''-'', CHR 0x27] @ ''), separated by a ''
       @ [CHR 0x27, CHR 0x5C, CHR ''n'', CHR 0x27] @ '':''"

definition index_selection ::
  "backend \<Rightarrow> (string \<times> string \<times> retriever) list \<Rightarrow> string \<Rightarrow> string list py" where
  \<comment> \<open>the generator picks the indices: the lines of its stripped answer\<close>
  "index_selection be rs query =
     bnd (BasicGenerator_generate be (index_selection_prompt rs query) 64 False False) (\<lambda>out.
     bnd (lift (bnd_e (getitem out 0) as_str)) (\<lambda>s.
     ret (split_on CHR 0x0A (strip s))))"

fun retrieve_selected ::
  "backend \<Rightarrow> (string \<times> string \<times> retriever) list \<Rightarrow> string \<Rightarrow> int \<Rightarrow> int
     \<Rightarrow> string list \<Rightarrow> string list \<Rightarrow> string list py" where
  \<comment> \<open>\<^verbatim>\<open>for ret in model_output.split("\n"): docs.extend(self._retrieve(...))\<close>\<close>
  "retrieve_selected be rs query topk mql [] docs = ret docs"
| "retrieve_selected be rs query topk mql (line # rest) docs =
     bnd (lift (lookup rs (index_name line))) (\<lambda>(description, r).
     bnd (BasicRAG_private_retrieve be query r topk mql) (\<lambda>found.
     retrieve_selected be rs query topk mql rest (docs @ found)))"

definition BasicRAG_retrieve ::
  "backend \<Rightarrow> rag \<Rightarrow> string \<Rightarrow> int \<Rightarrow> int \<Rightarrow> string list py" where
  "BasicRAG_retrieve be self query topk max_query_length =
     bnd (modify add_retrieve) (\<lambda>_.
     bnd (lift (attr (multi_vector_index self))) (\<lambda>multi.
     bnd (lift (attr (retrievers self))) (\<lambda>rs.
     if \<not> multi then
       bnd (lift (getitem (map fst rs) 0)) (\<lambda>retriever_name.
       bnd (lift (lookup rs retriever_name)) (\<lambda>(description, r).
       BasicRAG_private_retrieve be query r topk max_query_length))
     else
       bnd (index_selection be rs query) (\<lambda>lines.
       retrieve_selected be rs query topk max_query_length lines []))))"


section \<open>Hallucination detectors (TokenRAG.modifier, EntityRAG.modifier)\<close>

text \<open>
  Floats are real numbers, with one more value for NumPy's \<^verbatim>\<open>nan\<close>: \<^verbatim>\<open>np.mean\<close> of an empty
  array is \<^verbatim>\<open>nan\<close> (a warning, no exception), and every comparison with \<^verbatim>\<open>nan\<close> is false.
  \<^verbatim>\<open>np.max\<close> and \<^verbatim>\<open>np.min\<close> of an empty array raise \<^verbatim>\<open>ValueError\<close>. Rounding and
  infinities are not modelled.
\<close>

datatype pyfloat = Fl real | NaN

definition is_nan :: "pyfloat \<Rightarrow> bool" where
  "is_nan v = (case v of NaN \<Rightarrow> True | Fl _ \<Rightarrow> False)"

definition fl_val :: "pyfloat \<Rightarrow> real" where
  "fl_val v = (case v of Fl x \<Rightarrow> x | NaN \<Rightarrow> 0)"

definition uncertainty :: "pyfloat \<Rightarrow> pyfloat" where
  \<comment> \<open>\<^verbatim>\<open>1 - exp(v)\<close>\<close>
  "uncertainty v = (case v of Fl x \<Rightarrow> Fl (1 - exp x) | NaN \<Rightarrow> NaN)"

definition gt :: "pyfloat \<Rightarrow> real \<Rightarrow> bool" where
  \<comment> \<open>\<^verbatim>\<open>p > threshold\<close>\<close>
  "gt p t = (case p of Fl x \<Rightarrow> t < x | NaN \<Rightarrow> False)"

definition lt :: "pyfloat \<Rightarrow> real \<Rightarrow> bool" where
  \<comment> \<open>\<^verbatim>\<open>p < threshold\<close>\<close>
  "lt p t = (case p of Fl x \<Rightarrow> x < t | NaN \<Rightarrow> False)"

definition np_mean :: "pyfloat list \<Rightarrow> pyerr + pyfloat" where
  "np_mean xs =
     Inr (if xs = [] \<or> list_ex is_nan xs then NaN
          else Fl (sum_list (map fl_val xs) / real (length xs)))"

definition np_max :: "pyfloat list \<Rightarrow> pyerr + pyfloat" where
  "np_max xs =
     (if xs = [] then Inl ValueError
      else if list_ex is_nan xs then Inr NaN
      else Inr (Fl (Max (set (map fl_val xs)))))"

definition np_min :: "pyfloat list \<Rightarrow> pyerr + pyfloat" where
  "np_min xs =
     (if xs = [] then Inl ValueError
      else if list_ex is_nan xs then Inr NaN
      else Inr (Fl (Min (set (map fl_val xs)))))"

definition sentence_reduce :: "string \<Rightarrow> pyfloat list \<Rightarrow> pyerr + pyfloat" where
  \<comment> \<open>\<^verbatim>\<open>{"avg": np.mean, "max": np.max, "min": np.min}.get(solver, lambda x: 0)(probs)\<close>\<close>
  "sentence_reduce solver probs =
     (if solver = ''avg'' then np_mean probs
      else if solver = ''max'' then np_max probs
      else if solver = ''min'' then np_min probs
      else Inr (Fl 0))"

definition entity_reduce :: "string \<Rightarrow> pyfloat list \<Rightarrow> pyerr + pyfloat" where
  \<comment> \<open>the same with \<^verbatim>\<open>"first": lambda x: x[0] if len(x) > 0 else 0\<close>\<close>
  "entity_reduce solver probs =
     (if solver = ''avg'' then np_mean probs
      else if solver = ''max'' then np_max probs
      else if solver = ''min'' then np_min probs
      else if solver = ''first'' then Inr (case probs of [] \<Rightarrow> Fl 0 | x # _ \<Rightarrow> x)
      else Inr (Fl 0))"

definition slice_nat :: "'a list \<Rightarrow> nat \<Rightarrow> nat \<Rightarrow> 'a list" where
  \<comment> \<open>\<^verbatim>\<open>xs[a:b]\<close> for \<open>a\<close>, \<open>b\<close> that are not negative\<close>
  "slice_nat xs a b = take (b - a) (drop a xs)"

definition sentences_of :: "backend \<Rightarrow> string \<Rightarrow> string list" where
  \<comment> \<open>the stripped, non-empty sentences of a text\<close>
  "sentences_of be text = filter (\<lambda>sent. 0 < length sent) (map strip (nlp_sents be text))"

text \<open>
  The \<^verbatim>\<open>while\<close> loop of \<^verbatim>\<open>TokenRAG.modifier\<close>: from token \<open>tr\<close> on, each token is looked up
  in what is left of the sentence after \<open>pos\<close>; the loop stops at the first token not
  found, or when the tokens are used up. It returns the final \<open>tr\<close>.
\<close>

function match_tokens :: "string \<Rightarrow> string list \<Rightarrow> nat \<Rightarrow> nat \<Rightarrow> nat" where
  "match_tokens sent tokens pos tr =
     (if tr < length tokens then
        (let apr = find_str (drop pos sent) (tokens ! tr)
         in if apr = - 1 then tr
            else match_tokens sent tokens (nat apr + length (tokens ! tr)) (Suc tr))
      else tr)"
  by pat_completeness auto
termination
  by (relation "measure (\<lambda>(sent, tokens, pos, tr). length tokens - tr)") auto

declare match_tokens.simps [simp del]

text \<open>
  The placeholder loop, shared in shape by both detectors: each unit (token or entity)
  whose own uncertainty exceeds the threshold is replaced, at its first occurrence from
  \<open>pos\<close> on, by \<^verbatim>\<open>[xxx]\<close>.
\<close>

fun mark_units :: "real \<Rightarrow> string \<Rightarrow> int \<Rightarrow> (pyfloat \<times> string) list \<Rightarrow> string" where
  "mark_units thr cur pos [] = cur"
| "mark_units thr cur pos ((prob, tok) # rest) =
     (let apr = find_str (slice_from cur pos) tok + pos
      in if gt prob thr
         then mark_units thr
                (slice_to cur apr @ ''[xxx]'' @ slice_from cur (apr + int (length tok)))
                (apr + 5) rest
         else mark_units thr cur (apr + int (length tok)) rest)"

text \<open>
  The loop of \<^verbatim>\<open>TokenRAG.modifier\<close> over the sentences: \<open>seen\<close> are the sentences before the
  current one, \<open>tid\<close> the first token of the current one. \<open>None\<close> is "no hallucination",
  \<open>Some (prev, cur)\<close> the first flagged sentence with the text before it.
\<close>

fun TokenRAG_scan ::
  "real \<Rightarrow> string \<Rightarrow> string list \<Rightarrow> pyfloat list \<Rightarrow> string list \<Rightarrow> nat \<Rightarrow> string list
     \<Rightarrow> pyerr + (string \<times> string) option" where
  "TokenRAG_scan thr solver tokens logprobs seen tid [] = Inr None"
| "TokenRAG_scan thr solver tokens logprobs seen tid (sent # rest) =
     (let tr = match_tokens sent tokens 0 tid;
          probs = map uncertainty (slice_nat logprobs tid (Suc tr))
      in bnd_e (sentence_reduce solver probs) (\<lambda>p.
         if gt p thr
         then Inr (Some (join '' '' seen,
                         mark_units thr sent 0 (zip probs (slice_nat tokens tid (Suc tr)))))
         else TokenRAG_scan thr solver tokens logprobs (seen @ [sent]) (Suc tr) rest))"

definition TokenRAG_modifier ::
  "backend \<Rightarrow> config \<Rightarrow> string \<Rightarrow> string list \<Rightarrow> pyfloat list
     \<Rightarrow> pyerr + (string \<times> string option \<times> bool)" where
  "TokenRAG_modifier be self text tokens logprobs =
     bnd_e (TokenRAG_scan (hallucination_threshold self) (sentence_solver self) tokens logprobs
              [] 0 (sentences_of be text))
       (\<lambda>found. case found of
           None \<Rightarrow> Inr (text, None, False)
         | Some (prev, cur) \<Rightarrow> Inr (prev, Some cur, True))"

subsection \<open>EntityRAG.modifier\<close>

definition setitem :: "'a list \<Rightarrow> int \<Rightarrow> 'a \<Rightarrow> pyerr + 'a list" where
  \<comment> \<open>\<^verbatim>\<open>xs[i] = v\<close>\<close>
  "setitem xs i v =
     (if 0 \<le> i \<and> i < int (length xs) then Inr (xs[nat i := v])
      else if i < 0 \<and> - int (length xs) \<le> i then Inr (xs[nat (int (length xs) + i) := v])
      else Inl IndexError)"

fun assign_range :: "int list \<Rightarrow> int list \<Rightarrow> int \<Rightarrow> pyerr + int list" where
  \<comment> \<open>\<^verbatim>\<open>for j in js: belonging[j] = v\<close>\<close>
  "assign_range b [] v = Inr b"
| "assign_range b (j # js) v = bnd_e (setitem b j v) (\<lambda>b'. assign_range b' js v)"

fun belonging_of :: "string \<Rightarrow> int list \<Rightarrow> int \<Rightarrow> nat \<Rightarrow> string list \<Rightarrow> pyerr + int list" where
  \<comment> \<open>the token that owns each character of the text; \<^verbatim>\<open>assert apr != -1\<close>\<close>
  "belonging_of text b pos tid [] = Inr b"
| "belonging_of text b pos tid (tok # rest) =
     (let apr = find_str (slice_from text pos) tok + pos
      in if apr = - 1 then Inl AssertionError
         else bnd_e (assign_range b [pos .. apr + int (length tok) - 1] (int tid)) (\<lambda>b'.
              belonging_of text b' (apr + int (length tok)) (Suc tid) rest))"

fun entity_intervals :: "string \<Rightarrow> int list \<Rightarrow> int \<Rightarrow> string list \<Rightarrow> pyerr + (int \<times> int) list" where
  \<comment> \<open>the first and last token of each entity of one sentence\<close>
  "entity_intervals text b pos [] = Inr []"
| "entity_intervals text b pos (ent # rest) =
     (let apr = find_str (slice_from text pos) ent + pos
      in bnd_e (getitem b apr) (\<lambda>el.
         bnd_e (getitem b (apr + int (length ent) - 1)) (\<lambda>er.
         bnd_e (entity_intervals text b (apr + int (length ent)) rest) (\<lambda>more.
         Inr ((el, er) # more)))))"

fun map_e :: "('a \<Rightarrow> pyerr + 'b) \<Rightarrow> 'a list \<Rightarrow> pyerr + 'b list" where
  \<comment> \<open>a \<^verbatim>\<open>for\<close> loop that appends one result per item and stops at the first exception\<close>
  "map_e f [] = Inr []"
| "map_e f (x # xs) = bnd_e (f x) (\<lambda>y. bnd_e (map_e f xs) (\<lambda>ys. Inr (y # ys)))"

definition entity_probs ::
  "backend \<Rightarrow> config \<Rightarrow> string \<Rightarrow> string list \<Rightarrow> pyfloat list \<Rightarrow> pyerr + pyfloat list list" where
  \<comment> \<open>\<^verbatim>\<open>entity_prob\<close>: per sentence, the reduced log-probability of each entity\<close>
  "entity_probs be self text tokens logprobs =
     (let sentences = sentences_of be text;
          entity = map (nlp_ents be) sentences
      in bnd_e (belonging_of text (replicate (length text) (- 1)) 0 0 tokens) (\<lambda>belonging.
         bnd_e (map_e (\<lambda>(sent, ents). entity_intervals text belonging (find_str text sent) ents)
                  (zip sentences entity)) (\<lambda>entity_intv.
         map_e (map_e (\<lambda>(el, er). entity_reduce (entity_solver self) (slice logprobs el (er + 1))))
           entity_intv)))"

fun EntityRAG_scan ::
  "real \<Rightarrow> string \<Rightarrow> string list \<Rightarrow> (string \<times> string list \<times> pyfloat list) list
     \<Rightarrow> pyerr + (string \<times> string) option" where
  \<comment> \<open>the last loop of \<^verbatim>\<open>EntityRAG.modifier\<close>; a sentence without entities is skipped\<close>
  "EntityRAG_scan thr solver seen [] = Inr None"
| "EntityRAG_scan thr solver seen ((sent, ents, eprobs) # rest) =
     (if length eprobs = 0 then EntityRAG_scan thr solver (seen @ [sent]) rest
      else
        (let probs = map uncertainty eprobs
         in bnd_e (sentence_reduce solver probs) (\<lambda>p.
            if gt p thr
            then Inr (Some (join '' '' seen, mark_units thr sent 0 (zip probs ents)))
            else EntityRAG_scan thr solver (seen @ [sent]) rest)))"

definition EntityRAG_modifier ::
  "backend \<Rightarrow> config \<Rightarrow> string \<Rightarrow> string list \<Rightarrow> pyfloat list
     \<Rightarrow> pyerr + (string \<times> string option \<times> bool)" where
  "EntityRAG_modifier be self text tokens logprobs =
     (let sentences = sentences_of be text;
          entity = map (nlp_ents be) sentences
      in bnd_e (entity_probs be self text tokens logprobs) (\<lambda>entity_prob.
         bnd_e (EntityRAG_scan (hallucination_threshold self) (sentence_solver self) []
                  (zip sentences (zip entity entity_prob)))
           (\<lambda>found. case found of
               None \<Rightarrow> Inr (text, None, False)
             | Some (prev, cur) \<Rightarrow> Inr (prev, Some cur, True))))"


section \<open>The detectors over rounded arithmetic\<close>

text \<open>
  The detectors compute in double precision. Two of their operations round: \<^verbatim>\<open>1 - exp(v)\<close>
  and \<^verbatim>\<open>np.mean\<close>; the comparisons, \<^verbatim>\<open>np.max\<close> and \<^verbatim>\<open>np.min\<close> do not. The definitions of the
  previous section take the two as the exact operations on real numbers. Here they are
  parameters, and the loops of the detectors are written over them: \<open>fp_uncertainty\<close> is
  the number \<^verbatim>\<open>1 - exp(v)\<close> evaluates to, \<open>fp_mean\<close> the number \<^verbatim>\<open>np.mean\<close> returns on a
  non-empty array without \<^verbatim>\<open>nan\<close>. With the exact operations, the loops are those of the
  previous section.
\<close>

record numerics =
  fp_uncertainty :: "real \<Rightarrow> real"
  fp_mean :: "real list \<Rightarrow> real"

definition exact_numerics :: numerics where
  "exact_numerics =
     \<lparr>fp_uncertainty = (\<lambda>x. 1 - exp x), fp_mean = (\<lambda>xs. sum_list xs / real (length xs))\<rparr>"

definition uncertainty_fp :: "numerics \<Rightarrow> pyfloat \<Rightarrow> pyfloat" where
  \<comment> \<open>\<^verbatim>\<open>1 - exp(v)\<close>\<close>
  "uncertainty_fp nm v = (case v of Fl x \<Rightarrow> Fl (fp_uncertainty nm x) | NaN \<Rightarrow> NaN)"

definition np_mean_fp :: "numerics \<Rightarrow> pyfloat list \<Rightarrow> pyerr + pyfloat" where
  "np_mean_fp nm xs =
     Inr (if xs = [] \<or> list_ex is_nan xs then NaN else Fl (fp_mean nm (map fl_val xs)))"

definition sentence_reduce_fp :: "numerics \<Rightarrow> string \<Rightarrow> pyfloat list \<Rightarrow> pyerr + pyfloat" where
  \<comment> \<open>\<^verbatim>\<open>{"avg": np.mean, "max": np.max, "min": np.min}.get(solver, lambda x: 0)(probs)\<close>\<close>
  "sentence_reduce_fp nm solver probs =
     (if solver = ''avg'' then np_mean_fp nm probs
      else if solver = ''max'' then np_max probs
      else if solver = ''min'' then np_min probs
      else Inr (Fl 0))"

definition entity_reduce_fp :: "numerics \<Rightarrow> string \<Rightarrow> pyfloat list \<Rightarrow> pyerr + pyfloat" where
  \<comment> \<open>the same with \<^verbatim>\<open>"first": lambda x: x[0] if len(x) > 0 else 0\<close>\<close>
  "entity_reduce_fp nm solver probs =
     (if solver = ''avg'' then np_mean_fp nm probs
      else if solver = ''max'' then np_max probs
      else if solver = ''min'' then np_min probs
      else if solver = ''first'' then Inr (case probs of [] \<Rightarrow> Fl 0 | x # _ \<Rightarrow> x)
      else Inr (Fl 0))"

fun TokenRAG_scan_fp ::
  "numerics \<Rightarrow> real \<Rightarrow> string \<Rightarrow> string list \<Rightarrow> pyfloat list \<Rightarrow> string list \<Rightarrow> nat
     \<Rightarrow> string list \<Rightarrow> pyerr + (string \<times> string) option" where
  \<comment> \<open>the loop of \<^verbatim>\<open>TokenRAG.modifier\<close> over the sentences\<close>
  "TokenRAG_scan_fp nm thr solver tokens logprobs seen tid [] = Inr None"
| "TokenRAG_scan_fp nm thr solver tokens logprobs seen tid (sent # rest) =
     (let tr = match_tokens sent tokens 0 tid;
          probs = map (uncertainty_fp nm) (slice_nat logprobs tid (Suc tr))
      in bnd_e (sentence_reduce_fp nm solver probs) (\<lambda>p.
         if gt p thr
         then Inr (Some (join '' '' seen,
                         mark_units thr sent 0 (zip probs (slice_nat tokens tid (Suc tr)))))
         else TokenRAG_scan_fp nm thr solver tokens logprobs (seen @ [sent]) (Suc tr) rest))"

definition TokenRAG_modifier_fp ::
  "numerics \<Rightarrow> backend \<Rightarrow> config \<Rightarrow> string \<Rightarrow> string list \<Rightarrow> pyfloat list
     \<Rightarrow> pyerr + (string \<times> string option \<times> bool)" where
  "TokenRAG_modifier_fp nm be self text tokens logprobs =
     bnd_e (TokenRAG_scan_fp nm (hallucination_threshold self) (sentence_solver self) tokens
              logprobs [] 0 (sentences_of be text))
       (\<lambda>found. case found of
           None \<Rightarrow> Inr (text, None, False)
         | Some (prev, cur) \<Rightarrow> Inr (prev, Some cur, True))"

text \<open>
  The windows of log-probabilities \<^verbatim>\<open>logprobs[tid:tr+1]\<close> the loop of \<^verbatim>\<open>TokenRAG.modifier\<close>
  takes, one per sentence, when no sentence is flagged: \<open>tr\<close> is the token at which the
  matching of the sentence stops, and the next window starts at \<open>tr + 1\<close>.
\<close>

fun token_windows :: "string list \<Rightarrow> 'a list \<Rightarrow> nat \<Rightarrow> string list \<Rightarrow> 'a list list" where
  "token_windows tokens logprobs tid [] = []"
| "token_windows tokens logprobs tid (sent # rest) =
     slice_nat logprobs tid (Suc (match_tokens sent tokens 0 tid))
       # token_windows tokens logprobs (Suc (match_tokens sent tokens 0 tid)) rest"

definition entity_probs_fp ::
  "numerics \<Rightarrow> backend \<Rightarrow> config \<Rightarrow> string \<Rightarrow> string list \<Rightarrow> pyfloat list
     \<Rightarrow> pyerr + pyfloat list list" where
  \<comment> \<open>\<^verbatim>\<open>entity_prob\<close>: per sentence, the reduced log-probability of each entity\<close>
  "entity_probs_fp nm be self text tokens logprobs =
     (let sentences = sentences_of be text;
          entity = map (nlp_ents be) sentences
      in bnd_e (belonging_of text (replicate (length text) (- 1)) 0 0 tokens) (\<lambda>belonging.
         bnd_e (map_e (\<lambda>(sent, ents). entity_intervals text belonging (find_str text sent) ents)
                  (zip sentences entity)) (\<lambda>entity_intv.
         map_e (map_e (\<lambda>(el, er).
                  entity_reduce_fp nm (entity_solver self) (slice logprobs el (er + 1))))
           entity_intv)))"

fun EntityRAG_scan_fp ::
  "numerics \<Rightarrow> real \<Rightarrow> string \<Rightarrow> string list \<Rightarrow> (string \<times> string list \<times> pyfloat list) list
     \<Rightarrow> pyerr + (string \<times> string) option" where
  \<comment> \<open>the last loop of \<^verbatim>\<open>EntityRAG.modifier\<close>; a sentence without entities is skipped\<close>
  "EntityRAG_scan_fp nm thr solver seen [] = Inr None"
| "EntityRAG_scan_fp nm thr solver seen ((sent, ents, eprobs) # rest) =
     (if length eprobs = 0 then EntityRAG_scan_fp nm thr solver (seen @ [sent]) rest
      else
        (let probs = map (uncertainty_fp nm) eprobs
         in bnd_e (sentence_reduce_fp nm solver probs) (\<lambda>p.
            if gt p thr
            then Inr (Some (join '' '' seen, mark_units thr sent 0 (zip probs ents)))
            else EntityRAG_scan_fp nm thr solver (seen @ [sent]) rest)))"

definition EntityRAG_modifier_fp ::
  "numerics \<Rightarrow> backend \<Rightarrow> config \<Rightarrow> string \<Rightarrow> string list \<Rightarrow> pyfloat list
     \<Rightarrow> pyerr + (string \<times> string option \<times> bool)" where
  "EntityRAG_modifier_fp nm be self text tokens logprobs =
     (let sentences = sentences_of be text;
          entity = map (nlp_ents be) sentences
      in bnd_e (entity_probs_fp nm be self text tokens logprobs) (\<lambda>entity_prob.
         bnd_e (EntityRAG_scan_fp nm (hallucination_threshold self) (sentence_solver self) []
                  (zip sentences (zip entity entity_prob)))
           (\<lambda>found. case found of
               None \<Rightarrow> Inr (text, None, False)
             | Some (prev, cur) \<Rightarrow> Inr (prev, Some cur, True))))"


section \<open>BasicGenerator.generate_attn\<close>

text \<open>
  The attention of the last layer, \<^verbatim>\<open>attentions[-1][0]\<close>, is a tensor of shape heads \<open>\<times>\<close>
  query positions \<open>\<times>\<close> key positions: a list of heads, each a list of rows (one per query
  position), each a list of weights (one per key position). The model returns it with at
  least one head and as many query as key positions; the reductions below are written
  for such lists. Weights are real numbers: rounding is not modelled, and neither are
  the infinities and \<^verbatim>\<open>nan\<close> a division by zero produces in torch.
\<close>

definition sum_dim1 :: "real list list list \<Rightarrow> real list list" where
  \<comment> \<open>\<^verbatim>\<open>torch.sum(atten, dim=1)\<close>: in each head, the sum over the query positions\<close>
  "sum_dim1 atten = map (\<lambda>head. map sum_list (transpose head)) atten"

definition max_dim1 :: "real list list list \<Rightarrow> pyerr + real list list" where
  \<comment> \<open>\<^verbatim>\<open>torch.max(atten, dim=1)\<close>: the maximum over the query positions; torch refuses to
      reduce a dimension of size zero\<close>
  "max_dim1 atten =
     (if list_ex (\<lambda>head. head = []) atten then Inl IndexError
      else Inr (map (\<lambda>head. map (\<lambda>col. Max (set col)) (transpose head)) atten))"

definition last_dim1 :: "real list list list \<Rightarrow> pyerr + real list list" where
  \<comment> \<open>\<^verbatim>\<open>atten[:, -1]\<close>: in each head, the row of the last query position\<close>
  "last_dim1 atten =
     (if list_ex (\<lambda>head. head = []) atten then Inl IndexError else Inr (map last atten))"

definition mean_dim0 :: "real list list \<Rightarrow> real list" where
  \<comment> \<open>\<^verbatim>\<open>torch.mean(m, dim=0)\<close>: the mean over the rows, here over the heads\<close>
  "mean_dim0 m = map (\<lambda>col. sum_list col / real (length m)) (transpose m)"

definition decay :: "real list \<Rightarrow> real list" where
  \<comment> \<open>\<^verbatim>\<open>for i in range(n): mean_atten[i] /= (n - i)\<close>\<close>
  "decay xs = map (\<lambda>i. xs ! i / real (length xs - i)) [0 ..< length xs]"

definition attention_of :: "string \<Rightarrow> real list list list \<Rightarrow> pyerr + real list" where
  \<comment> \<open>the branches on \<^verbatim>\<open>solver\<close>: one weight per key position\<close>
  "attention_of solver atten =
     (if solver = ''max'' then bnd_e (max_dim1 atten) (\<lambda>m. Inr (mean_dim0 m))
      else if solver = ''avg'' then Inr (decay (mean_dim0 (sum_dim1 atten)))
      else if solver = ''last_token'' then bnd_e (last_dim1 atten) (\<lambda>m. Inr (mean_dim0 m))
      else Inl NotImplementedError)"

text \<open>
  The reduction as the specification words it for the policy \<^verbatim>\<open>avg\<close>, "sum over heads then
  mean over layers, with a positional decay correction": in each layer the weights are
  summed over the heads, the sums are averaged over the layers, and the weight of
  position \<open>i\<close> is divided by the number of remaining positions. The words say nothing of
  the query positions: the result keeps them, one row of weights per query position. It
  is not what the code computes.
\<close>

definition sum_heads :: "real list list list \<Rightarrow> real list list" where
  \<comment> \<open>the sum over the heads of one layer: one row per query position\<close>
  "sum_heads atten = map (\<lambda>rows. map sum_list (transpose rows)) (transpose atten)"

definition mean_layers :: "real list list list \<Rightarrow> real list list" where
  \<comment> \<open>the mean over the layers, weight by weight\<close>
  "mean_layers ms = map mean_dim0 (transpose ms)"

definition spec_avg_attention :: "real list list list list \<Rightarrow> real list list" where
  "spec_avg_attention layers = map decay (mean_layers (map sum_heads layers))"







definition last_layer_attention :: "backend \<Rightarrow> nat list list \<Rightarrow> pyerr + real list list list" where
  \<comment> \<open>\<^verbatim>\<open>self.model(generated_ids, output_attentions=True).attentions[-1][0]\<close>\<close>
  "last_layer_attention be batch =
     bnd_e (getitem (attentions be batch) (- 1)) (\<lambda>layer. getitem layer 0)"

definition generate_attn_weights :: "backend \<Rightarrow> nat list list \<Rightarrow> string \<Rightarrow> pyerr + real list" where
  \<comment> \<open>the section \<^verbatim>\<open># attention\<close> of \<^verbatim>\<open>generate_attn\<close>, up to the branches on \<^verbatim>\<open>solver\<close>: the
      value of \<^verbatim>\<open>mean_atten\<close>\<close>
  "generate_attn_weights be batch solver =
     bnd_e (last_layer_attention be batch) (\<lambda>atten. attention_of solver atten)"





section \<open>The inference loops\<close>

text \<open>
  A \<^verbatim>\<open>while True\<close> loop with fuel. One run of the body returns the new state of the loop
  variables and whether the loop is left (\<^verbatim>\<open>break\<close>); an exception of the body leaves the
  loop as an exception. \<open>None\<close> is returned only when the fuel is used up: that the loop
  ends is the statement that enough fuel gives something else.
\<close>

fun while_true :: "nat \<Rightarrow> ('s \<Rightarrow> ('s \<times> bool) py) \<Rightarrow> 's \<Rightarrow> 's option py" where
  "while_true 0 body s = ret None"
| "while_true (Suc fuel) body s =
     bnd (body s) (\<lambda>(s', stop). if stop then ret (Some s') else while_true fuel body s')"

definition stop_check :: "backend \<Rightarrow> config \<Rightarrow> string \<Rightarrow> nat \<Rightarrow> bool" where
  \<comment> \<open>the test that ends every loop body, \<^verbatim>\<open>tokens_count\<close> being \<^verbatim>\<open>len(tokenizer.encode(text))\<close>\<close>
  "stop_check be self text old_len =
     (generate_max_length self < int (length (encode be text))
      \<or> length text \<le> old_len
      \<or> contains ''the answer is'' text)"

definition Counter_add_generate :: "backend \<Rightarrow> string \<Rightarrow> unit py" where
  "Counter_add_generate be text =
     modify (\<lambda>w. w\<lparr>counter := (counter w)
       \<lparr>generate := generate (counter w) + 1,
        token := token (counter w) + int (length (encode be text)),
        sentence := sentence (counter w) + int (length (nlp_sents be text))\<rparr>\<rparr>)"

definition add_hallucinated :: "world \<Rightarrow> world" where
  \<comment> \<open>\<^verbatim>\<open>self.counter.hallucinated += 1\<close>\<close>
  "add_hallucinated w = w\<lparr>counter := (counter w)\<lparr>hallucinated := hallucinated (counter w) + 1\<rparr>\<rparr>"

definition count_generate :: "backend \<Rightarrow> config \<Rightarrow> string \<Rightarrow> bool \<Rightarrow> unit py" where
  \<comment> \<open>\<^verbatim>\<open>if self.use_counter == True: ...\<close>, with or without the count of hallucinations\<close>
  "count_generate be self text hallucination =
     (if use_counter self
      then bnd (Counter_add_generate be text) (\<lambda>_.
           if hallucination then modify add_hallucinated else ret ())
      else ret ())"

definition demo_prompt :: "(string \<times> string) list list \<Rightarrow> pyerr + string" where
  \<comment> \<open>\<^verbatim>\<open>"".join([d["case"] + "\n" for d in demo])\<close>, each \<^verbatim>\<open>d\<close> a dict\<close>
  "demo_prompt demo =
     bnd_e (map_e (\<lambda>d. bnd_e (lookup d ''case'') (\<lambda>c. Inr (c @ nl))) demo) (\<lambda>cs. Inr (concat cs))"

function str_nat :: "nat \<Rightarrow> string" where
  \<comment> \<open>\<^verbatim>\<open>str(n)\<close>\<close>
  "str_nat n =
     (if n < 10 then [char_of (48 + n)] else str_nat (n div 10) @ [char_of (48 + n mod 10)])"
  by pat_completeness auto
termination
  by (relation "measure id") auto

declare str_nat.simps [simp del]

definition context_lines :: "string list \<Rightarrow> string" where
  \<comment> \<open>\<^verbatim>\<open>for i, doc in enumerate(docs): prompt += f"[{i+1}] {doc}\n"\<close>\<close>
  "context_lines docs =
     concat (map (\<lambda>(i, doc). ''['' @ str_nat (Suc i) @ ''] '' @ doc @ nl) (enumerate 0 docs))"

definition nonempty_join :: "string \<Rightarrow> string list \<Rightarrow> string" where
  \<comment> \<open>\<^verbatim>\<open>sep.join(s for s in xs if len(s) > 0)\<close>\<close>
  "nonempty_join sep xs = join sep (filter (\<lambda>s. 0 < length s) xs)"

subsection \<open>FixLengthRAG.inference\<close>

text \<open>
  The loop variables are \<^verbatim>\<open>text\<close> and \<^verbatim>\<open>retrieve_question\<close>. Both branches unpack the four
  values \<^verbatim>\<open>generate\<close> returns into three names.
\<close>

definition FixLengthRAG_step ::
  "backend \<Rightarrow> rag \<Rightarrow> (string \<times> string) list list \<Rightarrow> string \<Rightarrow> string \<times> string
     \<Rightarrow> ((string \<times> string) \<times> bool) py" where
  "FixLengthRAG_step be self demo case_text = (\<lambda>(text, retrieve_question).
     let old_len = length text in
     bnd (BasicRAG_retrieve be self retrieve_question (retrieve_topk (args self)) 64) (\<lambda>docs.
     bnd (lift (demo_prompt demo)) (\<lambda>prompt.
     let prompt = prompt @ ''Context:'' @ nl @ context_lines docs
                    @ ''Answer in t he same format as before.'' @ nl
                    @ case_text @ '' '' @ text
     in
     if rag_method (args self) = ''fix-length-retrieval'' then
       bnd (BasicGenerator_generate be prompt (fix_length (args self)) False False) (\<lambda>out.
       bnd (lift (unpack3 out)) (\<lambda>(new_text, _, _).
       bnd (lift (as_str new_text)) (\<lambda>new_text.
       bnd (count_generate be (args self) new_text False) (\<lambda>_.
       let text = strip text @ '' '' @ strip new_text
       in ret ((text, strip new_text), stop_check be (args self) text old_len)))))
     else
       bnd (BasicGenerator_generate be prompt (generate_max_length (args self)) False False) (\<lambda>out.
       bnd (lift (unpack3 out)) (\<lambda>(new_text, _, _).
       bnd (lift (as_str new_text)) (\<lambda>new_text.
       bnd (count_generate be (args self) new_text False) (\<lambda>_.
       let new_text = strip new_text;
           sentences = map strip (nlp_sents be new_text)
       in case sentences of
            [] \<Rightarrow> ret ((text, retrieve_question), True)
          | first # _ \<Rightarrow>
              let text = strip text @ '' '' @ first
              in ret ((text, first), stop_check be (args self) text old_len))))))))"

definition FixLengthRAG_inference ::
  "nat \<Rightarrow> backend \<Rightarrow> rag \<Rightarrow> string \<Rightarrow> (string \<times> string) list list \<Rightarrow> string
     \<Rightarrow> string option py" where
  "FixLengthRAG_inference fuel be self question demo case_text =
     (if query_formulation (args self) \<noteq> ''direct'' then raise AssertionError
      else bnd (while_true fuel (FixLengthRAG_step be self demo case_text) ('''', question))
             (\<lambda>r. ret (map_option fst r)))"

subsection \<open>TokenRAG.inference and EntityRAG.inference\<close>

text \<open>
  \<^verbatim>\<open>EntityRAG.inference\<close> calls \<^verbatim>\<open>TokenRAG.inference\<close> on an instance whose \<^verbatim>\<open>modifier\<close> is
  that of \<^verbatim>\<open>EntityRAG\<close>: the detector is a parameter of the loop body. The first
  \<^verbatim>\<open>generate\<close> is asked for log-probabilities; its four values are unpacked into three
  names. \<^verbatim>\<open>raise NotImplemented\<close> raises \<^verbatim>\<open>TypeError\<close>, \<^verbatim>\<open>NotImplemented\<close> being no exception.
\<close>

type_synonym detector =
  "backend \<Rightarrow> config \<Rightarrow> string \<Rightarrow> string list \<Rightarrow> pyfloat list
     \<Rightarrow> pyerr + (string \<times> string option \<times> bool)"

definition TokenRAG_step ::
  "detector \<Rightarrow> backend \<Rightarrow> rag \<Rightarrow> string \<Rightarrow> (string \<times> string) list list \<Rightarrow> string \<Rightarrow> string
     \<Rightarrow> (string \<times> bool) py" where
  "TokenRAG_step modifier be self question demo case_text text =
     (let old_len = length text in
      bnd (lift (demo_prompt demo)) (\<lambda>prompt.
      let prompt = prompt @ case_text @ '' '' @ text in
      bnd (BasicGenerator_generate be prompt (generate_max_length (args self)) False True) (\<lambda>out.
      bnd (lift (unpack3 out)) (\<lambda>(new_text, tokens, logprobs).
      bnd (lift (as_str new_text)) (\<lambda>new_text.
      bnd (count_generate be (args self) new_text False) (\<lambda>_.
      bnd (lift (bnd_e (as_str_list tokens) (\<lambda>tokens.
                 bnd_e (as_floats logprobs) (\<lambda>logprobs.
                 modifier be (args self) new_text tokens (map Fl logprobs)))))
        (\<lambda>(ptext, cur, hallucination).
      bnd (if \<not> hallucination then ret (strip text @ '' '' @ strip new_text)
           else
             bnd (if query_formulation (args self) = ''direct''
                  then lift (bnd_e (attr cur) (\<lambda>cur. Inr (replace cur ''[xxx]'' '''')))
                  else if query_formulation (args self) = ''forward_all''
                  then ret (nonempty_join '' '' [question, text, ptext])
                  else raise TypeError) (\<lambda>retrieve_question.
             bnd (BasicRAG_retrieve be self retrieve_question (retrieve_topk (args self)) 64)
               (\<lambda>docs.
             bnd (lift (demo_prompt demo)) (\<lambda>prompt.
             let prompt = prompt @ ''Context:'' @ nl @ context_lines docs
                            @ ''Answer in the same format as before.'' @ nl
                            @ case_text @ '' '' @ text @ '' '' @ strip ptext
             in
             bnd (BasicGenerator_generate be prompt (generate_max_length (args self)) False False)
               (\<lambda>out.
             bnd (lift (unpack3 out)) (\<lambda>(new_text, _, _).
             bnd (lift (as_str new_text)) (\<lambda>new_text.
             bnd (count_generate be (args self) new_text True) (\<lambda>_.
             ret (strip text @ '' '' @ strip ptext @ '' '' @ strip new_text)))))))))
        (\<lambda>text. ret (text, stop_check be (args self) text old_len)))))))))"

definition TokenRAG_inference ::
  "nat \<Rightarrow> backend \<Rightarrow> rag \<Rightarrow> string \<Rightarrow> (string \<times> string) list list \<Rightarrow> string
     \<Rightarrow> string option py" where
  "TokenRAG_inference fuel be self question demo case_text =
     while_true fuel (TokenRAG_step TokenRAG_modifier be self question demo case_text) ''''"

definition EntityRAG_inference ::
  "nat \<Rightarrow> backend \<Rightarrow> rag \<Rightarrow> string \<Rightarrow> (string \<times> string) list list \<Rightarrow> string
     \<Rightarrow> string option py" where
  "EntityRAG_inference fuel be self question demo case_text =
     while_true fuel (TokenRAG_step EntityRAG_modifier be self question demo case_text) ''''"


section \<open>A concrete backend and configuration\<close>

text \<open>
  A small backend on which the model is evaluated: a tokenizer with one id per character,
  a language model that answers its \<open>k\<close>-th call with \<open>answers k\<close>, with one layer of one
  head of uniform attention, and retrievers that return one passage naming their class
  and the query.
\<close>

definition example_backend :: "(nat \<Rightarrow> string) \<Rightarrow> backend" where
  "example_backend answers =
     \<lparr>chat_template = (\<lambda>s _. s),
      encode = map of_char,
      decode = map char_of,
      decode_skip_special = map char_of,
      convert_ids_to_tokens = map (\<lambda>i. [char_of i]),
      tokenize = map (\<lambda>c. [c]),
      lm_generate = (\<lambda>k input_ids _. input_ids @ map of_char (answers k)),
      transition_scores = (\<lambda>k _ _. replicate (length (answers k)) 0),
      attentions = (\<lambda>batch. [map (\<lambda>ids. [map (\<lambda>_. replicate (length ids) (1 / real (length ids))) ids]) batch]),
      space_token = '' '',
      eos_token = ''</s>'',
      newline_token = 10,
      newline_glyph = [CHR 0xC4, CHR 0x8A],
      nlp_sents = (\<lambda>s. [s]),
      nlp_ents = (\<lambda>_. []),
      nlp_pos = (\<lambda>_. []),
      retriever_retrieve = (\<lambda>r query _ _. [[class_name r @ '': '' @ query]])\<rparr>"

definition example_config :: config where
  "example_config =
     \<lparr>model_name_or_path = ''m'', rag_method = ''attn_prob'', retriever_configs = None,
      query_formulation = ''direct'', query_decomposition = False,
      hallucination_threshold = 1 / 2, sentence_solver = ''avg'', entity_solver = ''avg'',
      retrieve_topk = 1, generate_max_length = 8, fix_length = 4, use_counter = True,
      enable_thinking = False, check_real_words = None, retrieve_keep_top_k = None,
      retrieve_keep_ratio = None\<rparr>"

definition world0 :: world where
  "world0 = \<lparr>counter = Counter_init, lm_calls = 0, backend_retrievals = 0\<rparr>"

definition example_rag :: rag where
  "example_rag =
     \<lparr>args = example_config,
      retrievers = Some [(''wiki'', ''encyclopedia'', BM25 []), (''news'', ''press'', SGPT [])],
      multi_vector_index = Some True\<rparr>"

definition example_single_config :: config where
  "example_single_config = example_config\<lparr>retriever_configs :=
      Some [[(''wiki'', [(''retriever_type'', ''BM25''), (''description'', ''encyclopedia'')])]]\<rparr>"

definition example_single_rag :: rag where
  "example_single_rag =
     \<lparr>args = example_single_config,
      retrievers = Some [(''wiki'', ''encyclopedia'', BM25 [])],
      multi_vector_index = Some False\<rparr>"


text \<open>
  The same backend with a fixed linguistic analysis: the sentences of every text, and
  the entities of each sentence.
\<close>

definition example_nlp :: "(string \<times> string list) list \<Rightarrow> backend" where
  "example_nlp analysis =
     (example_backend (\<lambda>_. []))
       \<lparr>nlp_sents := (\<lambda>_. map fst analysis),
        nlp_ents := (\<lambda>sent. case map_of analysis sent of None \<Rightarrow> [] | Some ents \<Rightarrow> ents)\<rparr>"

text \<open>
  Two variants of the configuration: an unrecognised sentence policy, and the \<^verbatim>\<open>max\<close> policy.
\<close>

definition median_config :: config where
  "median_config = example_config\<lparr>sentence_solver := ''median''\<rparr>"

definition max_config :: config where
  "max_config = example_config\<lparr>sentence_solver := ''max''\<rparr>"

text \<open>
  Two models for the attention weights: one with two layers, the last of which has two
  heads over two positions, and one with a single layer of two heads over one position.
\<close>

definition two_layer_backend :: backend where
  "two_layer_backend =
     (example_backend (\<lambda>_. ''ab''))
       \<lparr>attentions := (\<lambda>_. [[[[[7, 7], [7, 7]]]],
                           [[[[1, 0], [1 / 2, 1 / 2]], [[1, 0], [0, 1]]]]])\<rparr>"

definition two_head_backend :: backend where
  "two_head_backend =
     (example_backend (\<lambda>_. ''a''))\<lparr>attentions := (\<lambda>_. [[[[[1]], [[1]]]]])\<rparr>"


section \<open>Retrieval gateway: theorems\<close>

lemmas py_defs = bnd_def bnd_e_def ret_def raise_def lift_def modify_def attr_def

lemma init_single:
  assumes "BasicRAG_init a = Inr self" "multi_vector_index self = Some False"
  shows "\<exists>name d r. retrievers self = Some [(name, d, r)]"
proof -
  from assms obtain cs rs where cs: "retriever_configs a = Some cs"
    and rs: "init_retrievers cs [] = Inr rs"
    and self: "self = \<lparr>args = a, retrievers = Some rs, multi_vector_index = Some (length cs \<noteq> 1)\<rparr>"
    by (auto simp: BasicRAG_init_def bnd_e_def split: option.splits sum.splits)
  from self assms(2) have "length cs = 1" by simp
  then obtain c where c: "cs = [c]" by (cases cs) auto
  from rs c obtain name d r where "rs = [(name, d, r)]"
    by (auto simp: bnd_e_def split: list.splits sum.splits prod.splits)
  with self show ?thesis by simp
qed

lemma private_retrieve_counter:
  "retrieve (counter (snd (BasicRAG_private_retrieve be q r topk mql w))) = retrieve (counter w) + 1"
  by (cases r) (simp_all add: BasicRAG_private_retrieve_def call_retriever_def bnd_def modify_def
      add_retrieve_def raise_def lift_def split: prod.splits sum.splits)

lemma private_retrieve_backend:
  "backend_retrievals (snd (BasicRAG_private_retrieve be q r topk mql w)) \<le> Suc (backend_retrievals w)"
  by (cases r) (simp_all add: BasicRAG_private_retrieve_def call_retriever_def bnd_def modify_def
      add_retrieve_def raise_def lift_def split: prod.splits sum.splits)

lemma private_retrieve_Inr:
  assumes "BasicRAG_private_retrieve be q r topk mql w = (Inr docs, w')"
  shows "retrieve (counter w') = retrieve (counter w) + 1 \<and> backend_retrievals w' = Suc (backend_retrievals w)"
  using assms
  by (cases r) (auto simp add: BasicRAG_private_retrieve_def call_retriever_def bnd_def modify_def
      add_retrieve_def raise_def lift_def split: prod.splits sum.splits)

lemma retrieve_selected_Inr:
  assumes "retrieve_selected be rs q topk mql lines acc w = (Inr docs, w')"
  shows "retrieve (counter w') = retrieve (counter w) + int (length lines)
         \<and> backend_retrievals w' = backend_retrievals w + length lines"
  using assms
proof (induction lines arbitrary: acc w)
  case Nil
  then show ?case by (simp add: ret_def)
next
  case (Cons l ls)
  from Cons.prems obtain d r where lk: "lookup rs (index_name l) = Inr (d, r)"
    by (cases "lookup rs (index_name l)") (auto simp: bnd_def lift_def)
  from Cons.prems lk obtain found w1 where
    pr: "BasicRAG_private_retrieve be q r topk mql w = (Inr found, w1)"
    and rest: "retrieve_selected be rs q topk mql ls (acc @ found) w1 = (Inr docs, w')"
    by (auto simp: bnd_def lift_def split: prod.splits sum.splits)
  from private_retrieve_Inr[OF pr] Cons.IH[OF rest] show ?case by simp
qed


lemma init_unknown_kind:
  assumes "rt \<noteq> ''BM25''" "rt \<noteq> ''SGPT''" "rt \<noteq> ''DatabricksVectorSearch''"
  shows "BasicRAG_init (a\<lparr>retriever_configs :=
             Some [[(name, (''retriever_type'', rt) # (''description'', d) # kw)]]\<rparr>)
         = Inr \<lparr>args = a\<lparr>retriever_configs :=
                    Some [[(name, (''retriever_type'', rt) # (''description'', d) # kw)]]\<rparr>,
                retrievers = Some [(name, d, ExceptionInstance NotImplementedError)],
                multi_vector_index = Some False\<rparr>"
  using assms
  by (simp add: BasicRAG_init_def pop_def BasicRAG_retriever_selector_def py_defs)

text \<open>
  Claim C8 says that a retriever kind other than BM25, SGPT and DatabricksVectorSearch makes
  the construction of the RAG instance fail at once. The code does not do that:
  \<^verbatim>\<open>_retriever_selector\<close> \<^emph>\<open>returns\<close> the \<^verbatim>\<open>NotImplementedError\<close> object instead of raising
  it, so \<^verbatim>\<open>__init__\<close> succeeds and stores the exception object as the retriever; the error
  is raised only by \<^verbatim>\<open>_retrieve\<close>, at the first retrieval, because the stored object's
  class name is none of the three kinds.
\<close>

theorem unknown_retriever_kind_deferred:
  assumes "rt \<noteq> ''BM25''" "rt \<noteq> ''SGPT''" "rt \<noteq> ''DatabricksVectorSearch''"
  shows "\<exists>self. BasicRAG_init (a\<lparr>retriever_configs :=
             Some [[(name, (''retriever_type'', rt) # (''description'', d) # kw)]]\<rparr>) = Inr self
           \<and> fst (BasicRAG_retrieve be self q topk mql w) = Inl NotImplementedError"
  using init_unknown_kind[OF assms]
  by (simp add: BasicRAG_retrieve_def getitem_def lookup_def
      BasicRAG_private_retrieve_def py_defs)

theorem unknown_retriever_kind_deferred_example:
  "BasicRAG_init (example_config\<lparr>retriever_configs :=
       Some [[(''wiki'', [(''retriever_type'', ''Faiss''), (''description'', ''d'')])]]\<rparr>)
     = Inr \<lparr>args = example_config\<lparr>retriever_configs :=
                Some [[(''wiki'', [(''retriever_type'', ''Faiss''), (''description'', ''d'')])]]\<rparr>,
            retrievers = Some [(''wiki'', ''d'', ExceptionInstance NotImplementedError)],
            multi_vector_index = Some False\<rparr>
   \<and> fst (BasicRAG_retrieve (example_backend (\<lambda>_. ''x''))
            \<lparr>args = example_config, 
             retrievers = Some [(''wiki'', ''d'', ExceptionInstance NotImplementedError)],
             multi_vector_index = Some False\<rparr> ''q'' 1 64 world0) = Inl NotImplementedError"
  using unknown_retriever_kind_deferred[where rt="''Faiss''" and a=example_config and name="''wiki''"
          and d="''d''" and kw="[]" and be="example_backend (\<lambda>_. ''x'')" and q="''q''" and topk=1
          and mql=64 and w=world0]
  by (simp add: BasicRAG_init_def pop_def BasicRAG_retriever_selector_def
      BasicRAG_retrieve_def getitem_def lookup_def BasicRAG_private_retrieve_def py_defs)

lemma retrieve_selected_unknown:
  assumes pre: "retrieve_selected be rs q topk mql pre acc w = (Inr docs, w')"
    and unk: "index_name l \<notin> fst ` set rs"
  shows "retrieve_selected be rs q topk mql (pre @ l # post) acc w = (Inl KeyError, w')"
  using pre
proof (induction pre arbitrary: acc w)
  case Nil
  from unk have "map_of rs (index_name l) = None"
    by (simp add: map_of_eq_None_iff)
  with Nil show ?case by (simp add: lookup_def py_defs)
next
  case (Cons p ps)
  from Cons.prems obtain d r where lk: "lookup rs (index_name p) = Inr (d, r)"
    by (cases "lookup rs (index_name p)") (auto simp: bnd_def lift_def)
  from Cons.prems lk obtain found w1 where
    pr: "BasicRAG_private_retrieve be q r topk mql w = (Inr found, w1)"
    and rest: "retrieve_selected be rs q topk mql ps (acc @ found) w1 = (Inr docs, w')"
    by (auto simp: bnd_def lift_def split: prod.splits sum.splits)
  from Cons.IH[OF rest] lk pr show ?case
    by (simp add: bnd_def lift_def)
qed

text \<open>
  Claim C9, as amended. In multi-index mode the lines of the generator's index selection
  are served in order. When a line names no configured index and the retrievals for the
  lines before it have returned, \<^verbatim>\<open>retrieve\<close> raises \<^verbatim>\<open>KeyError\<close> (the dict lookup
  \<^verbatim>\<open>self.retrievers[...]\<close>), not \<^verbatim>\<open>NotImplementedError\<close>, in the state those retrievals have
  left. The error is not caught and nothing is retried.
\<close>

theorem retrieve_unknown_index_KeyError:
  assumes "multi_vector_index self = Some True" and "retrievers self = Some rs"
    and sel: "index_selection be rs q (add_retrieve w) = (Inr (pre @ l # post), w1)"
    and unk: "index_name l \<notin> fst ` set rs"
    and pre: "retrieve_selected be rs q topk mql pre [] w1 = (Inr docs, w2)"
  shows "BasicRAG_retrieve be self q topk mql w = (Inl KeyError, w2)"
  using retrieve_selected_unknown[OF pre unk, of post] assms(1,2) sel
  by (simp add: BasicRAG_retrieve_def py_defs)



lemma index_of_absent: "x \<notin> set xs \<Longrightarrow> index_of x xs = None"
  by (induction xs) auto

lemma of_char_small: "(of_char c :: nat) < 256"
proof -
  have "(of_char c :: nat) mod 256 = of_char c" by (rule of_char_mod_256)
  moreover have "(of_char c :: nat) mod 256 < 256" by simp
  ultimately show ?thesis by simp
qed

lemma think_end_chars: "think_end (map of_char s) = 0"
proof -
  have "(151668::nat) \<notin> set (rev (map of_char s))"
  proof
    assume "(151668::nat) \<in> set (rev (map of_char s))"
    then obtain c where "(of_char c :: nat) = 151668" by auto
    with of_char_small[of c] show False by simp
  qed
  then show ?thesis by (simp add: think_end_def index_of_absent)
qed

lemma example_generate:
  "BasicGenerator_generate (example_backend answers) prompt n th False w
     = (Inr [Str (strip_chars nl (answers (lm_calls w))), PyNone, PyNone, PyNone],
        w\<lparr>lm_calls := Suc (lm_calls w)\<rparr>)"
  by (simp add: BasicGenerator_generate_def example_backend_def think_end_chars comp_def Let_def)

lemma example_index_selection:
  "index_selection (example_backend answers) rs q w
     = (Inr (split_on CHR 0x0A (strip (strip_chars nl (answers (lm_calls w))))),
        w\<lparr>lm_calls := Suc (lm_calls w)\<rparr>)"
  by (simp add: index_selection_def example_generate py_defs getitem_def as_str_def)

lemma example_selection:
  "index_selection (example_backend (\<lambda>_. ''- wiki\<newline>- law'')) 
      [(''wiki'', ''encyclopedia'', BM25 []), (''news'', ''press'', SGPT [])] ''q'' (add_retrieve world0)
    = (Inr [''- wiki'', ''- law''], (add_retrieve world0)\<lparr>lm_calls := Suc (lm_calls (add_retrieve world0))\<rparr>)"
  by (simp add: example_index_selection strip_def strip_chars_def is_space_def nl_def)


lemmas example_string_defs = strip_def strip_chars_def is_space_def nl_def index_name_def

text \<open>
  The claim as stated fails: with the indices \<open>wiki\<close> and \<open>news\<close> configured and the
  selection \<^verbatim>\<open>- law\<close>, the error is \<^verbatim>\<open>KeyError\<close>.
\<close>

theorem retrieve_unknown_index_counterexample:
  "fst (BasicRAG_retrieve (example_backend (\<lambda>_. ''- law'')) example_rag ''q'' 1 64 world0)
     = Inl KeyError
   \<and> fst (BasicRAG_retrieve (example_backend (\<lambda>_. ''- law'')) example_rag ''q'' 1 64 world0)
     \<noteq> Inl NotImplementedError"
  by (simp add: BasicRAG_retrieve_def example_rag_def example_index_selection py_defs
      example_string_defs lookup_def)

lemma example_wiki_retrieved:
  "retrieve_selected (example_backend answers)
     [(''wiki'', ''encyclopedia'', BM25 []), (''news'', ''press'', SGPT [])] ''q'' 1 64 [''- wiki''] []
     ((add_retrieve world0)\<lparr>lm_calls := Suc (lm_calls (add_retrieve world0))\<rparr>)
   = (Inr [''BM25: q''],
      \<lparr>counter = Counter_init\<lparr>retrieve := 2\<rparr>, lm_calls = 1, backend_retrievals = 1\<rparr>)"
  apply (simp add: py_defs example_string_defs lookup_def world0_def add_retrieve_def)
  apply (simp add: BasicRAG_private_retrieve_def call_retriever_def getitem_def
      example_backend_def Counter_init_def py_defs add_retrieve_def)
  done

text \<open>
  Claim C9, an instance: the indices \<open>wiki\<close> and \<open>news\<close> are configured, the selection is
  \<^verbatim>\<open>- wiki\<close> then \<^verbatim>\<open>- law\<close>. The index \<open>wiki\<close> is queried, then the lookup of \<open>law\<close> fails.
\<close>

theorem retrieve_unknown_index_witness:
  "BasicRAG_retrieve (example_backend (\<lambda>_. ''- wiki\<newline>- law'')) example_rag ''q'' 1 64 world0
     = (Inl KeyError,
        \<lparr>counter = Counter_init\<lparr>retrieve := 2\<rparr>, lm_calls = 1, backend_retrievals = 1\<rparr>)"
  using retrieve_unknown_index_KeyError[where self=example_rag
      and rs="[(''wiki'', ''encyclopedia'', BM25 []), (''news'', ''press'', SGPT [])]"
      and be="example_backend (\<lambda>_. ''- wiki\<newline>- law'')" and q="''q''" and w=world0
      and pre="[''- wiki'']" and l="''- law''" and post="[]" and topk=1 and mql=64,
      OF _ _ _ _ example_wiki_retrieved]
    example_selection
  by (simp add: example_rag_def example_string_defs)

lemma generate_world:
  "counter (snd (BasicGenerator_generate be p n th lp w)) = counter w
   \<and> backend_retrievals (snd (BasicGenerator_generate be p n th lp w)) = backend_retrievals w"
  by (simp add: BasicGenerator_generate_def Let_def)

lemma index_selection_world:
  "counter (snd (index_selection be rs q w)) = counter w
   \<and> backend_retrievals (snd (index_selection be rs q w)) = backend_retrievals w"
proof -
  have "snd (index_selection be rs q w)
        = snd (BasicGenerator_generate be (index_selection_prompt rs q) 64 False False w)"
    by (simp add: index_selection_def py_defs split: prod.splits sum.splits)
  then show ?thesis by (simp add: generate_world)
qed

lemma retrieve_selected_counter:
  "retrieve (counter w) \<le> retrieve (counter (snd (retrieve_selected be rs q topk mql lines acc w)))
   \<and> retrieve (counter (snd (retrieve_selected be rs q topk mql lines acc w)))
       \<le> retrieve (counter w) + int (length lines)"
proof (induction lines arbitrary: acc w)
  case Nil
  then show ?case by (simp add: ret_def)
next
  case (Cons l ls)
  show ?case
  proof (cases "lookup rs (index_name l)")
    case (Inl e)
    then show ?thesis by (simp add: bnd_def lift_def)
  next
    case (Inr dr)
    obtain d r where dr: "dr = (d, r)" by (cases dr)
    obtain res w1 where pr: "BasicRAG_private_retrieve be q r topk mql w = (res, w1)"
      by (cases "BasicRAG_private_retrieve be q r topk mql w")
    from private_retrieve_counter[of be q r topk mql w] pr
    have w1: "retrieve (counter w1) = retrieve (counter w) + 1" by simp
    show ?thesis
    proof (cases res)
      case (Inl e)
      with Inr dr pr w1 show ?thesis by (simp add: bnd_def lift_def)
    next
      case found: (Inr found)
      from Cons.IH[where acc="acc @ found" and w=w1] w1 Inr dr pr found show ?thesis
        by (simp add: bnd_def lift_def)
    qed
  qed
qed

text \<open>
  Claim C10, as amended. An instance built by \<^verbatim>\<open>__init__\<close> in single-index mode adds
  exactly 2 to \<^verbatim>\<open>counter.retrieve\<close> on every call of \<^verbatim>\<open>retrieve\<close> (once in \<^verbatim>\<open>retrieve\<close>, once
  in \<^verbatim>\<open>_retrieve\<close>), also when the call raises, while at most one query reaches a backend.
  In multi-index mode a call that returns adds 1 plus the number of selected lines, while
  the backends serve one query per selected line; a call that raises after the selection
  adds at least 1 and at most that number. So the counter is not the number of
  retrievals.
\<close>

theorem retrieve_counter_double_count:
  "(BasicRAG_init a = Inr self \<and> multi_vector_index self = Some False \<longrightarrow>
      retrieve (counter (snd (BasicRAG_retrieve be self q topk mql w))) = retrieve (counter w) + 2
      \<and> backend_retrievals (snd (BasicRAG_retrieve be self q topk mql w)) \<le> backend_retrievals w + 1)
   \<and> (multi_vector_index self = Some True \<and> retrievers self = Some rs
       \<and> index_selection be rs q (add_retrieve w) = (Inr lines, w1)
       \<and> BasicRAG_retrieve be self q topk mql w = (Inr docs, w2) \<longrightarrow>
      retrieve (counter w2) = retrieve (counter w) + 1 + int (length lines)
      \<and> backend_retrievals w2 = backend_retrievals w + length lines)
   \<and> (multi_vector_index self = Some True \<and> retrievers self = Some rs
       \<and> index_selection be rs q (add_retrieve w) = (Inr lines, w1) \<longrightarrow>
      retrieve (counter w) + 1 \<le> retrieve (counter (snd (BasicRAG_retrieve be self q topk mql w)))
      \<and> retrieve (counter (snd (BasicRAG_retrieve be self q topk mql w)))
          \<le> retrieve (counter w) + 1 + int (length lines))"
proof (intro conjI impI)
  assume h: "BasicRAG_init a = Inr self \<and> multi_vector_index self = Some False"
  then obtain name d r where rs: "retrievers self = Some [(name, d, r)]"
    using init_single by blast
  from h have m: "multi_vector_index self = Some False" by simp
  have run: "BasicRAG_retrieve be self q topk mql w
             = BasicRAG_private_retrieve be q r topk mql (add_retrieve w)"
    by (simp add: BasicRAG_retrieve_def getitem_def lookup_def py_defs m rs)
  show "retrieve (counter (snd (BasicRAG_retrieve be self q topk mql w))) = retrieve (counter w) + 2"
    unfolding run private_retrieve_counter by (simp add: add_retrieve_def)
  show "backend_retrievals (snd (BasicRAG_retrieve be self q topk mql w)) \<le> backend_retrievals w + 1"
    unfolding run using private_retrieve_backend[of be q r topk mql "add_retrieve w"]
    by (simp add: add_retrieve_def)
next
  assume h: "multi_vector_index self = Some True \<and> retrievers self = Some rs
       \<and> index_selection be rs q (add_retrieve w) = (Inr lines, w1)
       \<and> BasicRAG_retrieve be self q topk mql w = (Inr docs, w2)"
  then have m: "multi_vector_index self = Some True" and rs: "retrievers self = Some rs"
    and isel: "index_selection be rs q (add_retrieve w) = (Inr lines, w1)"
    and run: "BasicRAG_retrieve be self q topk mql w = (Inr docs, w2)" by simp_all
  have "BasicRAG_retrieve be self q topk mql w = retrieve_selected be rs q topk mql lines [] w1"
    by (simp add: BasicRAG_retrieve_def py_defs m rs isel)
  with run have sel: "retrieve_selected be rs q topk mql lines [] w1 = (Inr docs, w2)" by simp
  from index_selection_world[of be rs q "add_retrieve w"] isel
  have w1: "retrieve (counter w1) = retrieve (counter w) + 1 \<and> backend_retrievals w1 = backend_retrievals w"
    by (simp add: add_retrieve_def)
  from retrieve_selected_Inr[OF sel] w1
  show "retrieve (counter w2) = retrieve (counter w) + 1 + int (length lines)"
    and "backend_retrievals w2 = backend_retrievals w + length lines"
    by simp_all
next
  assume h: "multi_vector_index self = Some True \<and> retrievers self = Some rs
       \<and> index_selection be rs q (add_retrieve w) = (Inr lines, w1)"
  then have m: "multi_vector_index self = Some True" and rs: "retrievers self = Some rs"
    and isel: "index_selection be rs q (add_retrieve w) = (Inr lines, w1)" by simp_all
  have run: "BasicRAG_retrieve be self q topk mql w = retrieve_selected be rs q topk mql lines [] w1"
    by (simp add: BasicRAG_retrieve_def py_defs m rs isel)
  from index_selection_world[of be rs q "add_retrieve w"] isel
  have w1: "retrieve (counter w1) = retrieve (counter w) + 1"
    by (simp add: add_retrieve_def)
  from retrieve_selected_counter[where w=w1 and be=be and rs=rs and q=q and topk=topk
      and mql=mql and lines=lines and acc="[]"] w1
  show "retrieve (counter w) + 1 \<le> retrieve (counter (snd (BasicRAG_retrieve be self q topk mql w)))"
    and "retrieve (counter (snd (BasicRAG_retrieve be self q topk mql w)))
          \<le> retrieve (counter w) + 1 + int (length lines)"
    unfolding run by simp_all
qed


lemma example_single_init: "BasicRAG_init example_single_config = Inr example_single_rag"
  by (simp add: BasicRAG_init_def example_single_config_def example_single_rag_def pop_def
      BasicRAG_retriever_selector_def py_defs)

lemma example_multi_run:
  "BasicRAG_retrieve (example_backend (\<lambda>_. ''- wiki\<newline>- news'')) example_rag ''q'' 1 64 world0
     = (Inr [''BM25: q'', ''SGPT: q''],
        \<lparr>counter = Counter_init\<lparr>retrieve := 3\<rparr>, lm_calls = 1, backend_retrievals = 2\<rparr>)"
  apply (simp add: BasicRAG_retrieve_def example_rag_def example_index_selection py_defs
      example_string_defs lookup_def world0_def add_retrieve_def)
  apply (simp add: BasicRAG_private_retrieve_def call_retriever_def getitem_def
      example_backend_def Counter_init_def py_defs add_retrieve_def)
  done

text \<open>
  Claim C10, counterexample: in multi-index mode with the two selected lines \<^verbatim>\<open>- wiki\<close> and
  \<^verbatim>\<open>- law\<close>, the second of which names no index, the call raises with the counter at 2,
  not at 1 plus the two selected lines.
\<close>

theorem retrieve_counter_counterexample:
  "multi_vector_index example_rag = Some True
   \<and> index_selection (example_backend (\<lambda>_. ''- wiki\<newline>- law''))
        [(''wiki'', ''encyclopedia'', BM25 []), (''news'', ''press'', SGPT [])] ''q''
        (add_retrieve world0)
      = (Inr [''- wiki'', ''- law''],
         (add_retrieve world0)\<lparr>lm_calls := Suc (lm_calls (add_retrieve world0))\<rparr>)
   \<and> BasicRAG_retrieve (example_backend (\<lambda>_. ''- wiki\<newline>- law'')) example_rag ''q'' 1 64 world0
      = (Inl KeyError,
         \<lparr>counter = Counter_init\<lparr>retrieve := 2\<rparr>, lm_calls = 1, backend_retrievals = 1\<rparr>)
   \<and> retrieve (counter world0) = 0"
proof -
  have "BasicRAG_retrieve (example_backend (\<lambda>_. ''- wiki\<newline>- law'')) example_rag ''q'' 1 64 world0
      = (Inl KeyError,
         \<lparr>counter = Counter_init\<lparr>retrieve := 2\<rparr>, lm_calls = 1, backend_retrievals = 1\<rparr>)"
    apply (simp add: BasicRAG_retrieve_def example_rag_def example_index_selection py_defs
        example_string_defs lookup_def world0_def add_retrieve_def)
    apply (simp add: BasicRAG_private_retrieve_def call_retriever_def getitem_def
        example_backend_def Counter_init_def py_defs add_retrieve_def)
    done
  then show ?thesis
    using example_selection
    by (simp add: example_rag_def world0_def Counter_init_def)
qed

text \<open>
  Claim C10, instances: one call in single-index mode, one call in multi-index mode that
  returns with two selected lines.
\<close>

theorem retrieve_counter_double_count_witness:
  "retrieve (counter (snd (BasicRAG_retrieve (example_backend (\<lambda>_. [])) example_single_rag
       ''q'' 1 64 world0))) = 2
   \<and> retrieve (counter (snd (BasicRAG_retrieve (example_backend (\<lambda>_. ''- wiki\<newline>- news''))
       example_rag ''q'' 1 64 world0))) = 3
   \<and> backend_retrievals (snd (BasicRAG_retrieve (example_backend (\<lambda>_. ''- wiki\<newline>- news''))
       example_rag ''q'' 1 64 world0)) = 2"
proof -
  have single: "BasicRAG_init example_single_config = Inr example_single_rag
                \<and> multi_vector_index example_single_rag = Some False"
    by (simp add: example_single_init example_single_rag_def)
  have multi: "multi_vector_index example_rag = Some True
      \<and> retrievers example_rag = Some [(''wiki'', ''encyclopedia'', BM25 []), (''news'', ''press'', SGPT [])]
      \<and> index_selection (example_backend (\<lambda>_. ''- wiki\<newline>- news''))
           [(''wiki'', ''encyclopedia'', BM25 []), (''news'', ''press'', SGPT [])] ''q'' (add_retrieve world0)
         = (Inr [''- wiki'', ''- news''],
            (add_retrieve world0)\<lparr>lm_calls := Suc (lm_calls (add_retrieve world0))\<rparr>)
      \<and> BasicRAG_retrieve (example_backend (\<lambda>_. ''- wiki\<newline>- news'')) example_rag ''q'' 1 64 world0
         = (Inr [''BM25: q'', ''SGPT: q''],
            \<lparr>counter = Counter_init\<lparr>retrieve := 3\<rparr>, lm_calls = 1, backend_retrievals = 2\<rparr>)"
    using example_multi_run
    by (simp add: example_index_selection example_string_defs)
      (simp add: example_rag_def)
  from retrieve_counter_double_count[where be="example_backend (\<lambda>_. [])" and q="''q''"
         and topk=1 and mql=64 and w=world0, THEN conjunct1, THEN mp, OF single]
       retrieve_counter_double_count[THEN conjunct2, THEN conjunct1, THEN mp, OF multi]
  show ?thesis
    by (simp add: example_multi_run)
qed


section \<open>Hallucination detectors: theorems\<close>

lemma sentence_reduce_unknown:
  assumes "solver \<noteq> ''avg''" "solver \<noteq> ''max''" "solver \<noteq> ''min''"
  shows "sentence_reduce solver probs = Inr (Fl 0)"
  using assms by (simp add: sentence_reduce_def)

lemma entity_reduce_unknown:
  assumes "solver \<noteq> ''avg''" "solver \<noteq> ''max''" "solver \<noteq> ''min''" "solver \<noteq> ''first''"
  shows "entity_reduce solver probs = Inr (Fl 0)"
  using assms by (simp add: entity_reduce_def)

lemma mean_below:
  fixes xs :: "real list"
  assumes "xs \<noteq> []" and "\<forall>x \<in> set xs. x < t"
  shows "sum_list xs / real (length xs) < t"
proof -
  have "sum_list xs < real (length xs) * t" using assms
  proof (induction xs rule: list_nonempty_induct)
    case (single x)
    then show ?case by simp
  next
    case (cons x xs)
    then have "sum_list xs < real (length xs) * t" and "x < t" by simp_all
    then show ?case by (simp add: algebra_simps)
  qed
  moreover have "0 < real (length xs)" using assms(1) by simp
  ultimately show ?thesis by (simp add: pos_divide_less_eq mult.commute)
qed

lemma below_fl:
  assumes "\<forall>p \<in> set ps. lt p t"
  shows "\<not> list_ex is_nan ps" and "\<forall>x \<in> set (map fl_val ps). x < t"
  using assms by (auto simp: lt_def is_nan_def fl_val_def list_ex_iff split: pyfloat.splits)

lemma reduce_below:
  assumes below: "\<forall>p \<in> set ps. lt p t"
    and known: "solver = ''avg'' \<or> solver = ''max'' \<or> solver = ''min'' \<or> 0 \<le> t"
    and r: "sentence_reduce solver ps = Inr p"
  shows "\<not> gt p t"
proof (cases "ps = []")
  case True
  with r known show ?thesis
    by (auto simp: sentence_reduce_def np_mean_def np_max_def np_min_def gt_def split: if_splits)
next
  case False
  note nn = below_fl(1)[OF below] and bl = below_fl(2)[OF below]
  have fin: "finite (set (map fl_val ps))" and ne: "set (map fl_val ps) \<noteq> {}"
    using False by simp_all
  have "Max (set (map fl_val ps)) < t" using bl fin ne by (subst Max_less_iff) auto
  then have mx: "\<not> gt (Fl (Max (set (map fl_val ps)))) t" by (simp add: gt_def)
  have mn: "\<not> gt (Fl (Min (set (map fl_val ps)))) t"
  proof -
    obtain x where "x \<in> set (map fl_val ps)" using False by (cases ps) auto
    with fin bl have "Min (set (map fl_val ps)) \<le> x" and "x < t" by (auto intro: Min_le)
    then show ?thesis by (simp add: gt_def)
  qed
  have "sum_list (map fl_val ps) / real (length ps) < t"
    using mean_below[of "map fl_val ps" t] False bl by simp
  then have av: "\<not> gt (Fl (sum_list (map fl_val ps) / real (length ps))) t"
    by (simp add: gt_def)
  have zero: "0 \<le> t \<Longrightarrow> \<not> gt (Fl 0) t" by (simp add: gt_def)
  consider "solver = ''avg''" | "solver = ''max''" | "solver = ''min''"
    | "solver \<noteq> ''avg''" "solver \<noteq> ''max''" "solver \<noteq> ''min''" by blast
  then show ?thesis
  proof cases
    case 1
    with r False nn av show ?thesis by (simp add: sentence_reduce_def np_mean_def)
  next
    case 2
    with r False nn mx show ?thesis by (simp add: sentence_reduce_def np_max_def)
  next
    case 3
    with r False nn mn show ?thesis by (simp add: sentence_reduce_def np_min_def)
  next
    case 4
    with r known zero show ?thesis by (simp add: sentence_reduce_def)
  qed
qed

lemma reduce_error:
  assumes "sentence_reduce solver ps = Inl e"
  shows "e = ValueError \<and> (solver = ''max'' \<or> solver = ''min'') \<and> ps = []"
  using assms
  by (auto simp: sentence_reduce_def np_mean_def np_max_def np_min_def split: if_splits)

lemma slice_nat_subset: "set (slice_nat xs a b) \<subseteq> set xs"
  by (auto simp: slice_nat_def dest: in_set_takeD in_set_dropD)

lemma TokenRAG_scan_step:
  "TokenRAG_scan thr solver tokens logprobs seen tid (sent # rest) =
     bnd_e (sentence_reduce solver
              (map uncertainty (slice_nat logprobs tid (Suc (match_tokens sent tokens 0 tid)))))
       (\<lambda>p. if gt p thr
            then Inr (Some (join '' '' seen,
                   mark_units thr sent 0
                     (zip (map uncertainty (slice_nat logprobs tid (Suc (match_tokens sent tokens 0 tid))))
                          (slice_nat tokens tid (Suc (match_tokens sent tokens 0 tid))))))
            else TokenRAG_scan thr solver tokens logprobs (seen @ [sent])
                   (Suc (match_tokens sent tokens 0 tid)) rest)"
  by (simp add: Let_def)

lemma TokenRAG_scan_below:
  assumes below: "\<forall>v \<in> set logprobs. lt (uncertainty v) thr"
    and known: "solver = ''avg'' \<or> solver = ''max'' \<or> solver = ''min'' \<or> 0 \<le> thr"
  shows "TokenRAG_scan thr solver tokens logprobs seen tid sents = Inr None
         \<or> ((solver = ''max'' \<or> solver = ''min'')
             \<and> TokenRAG_scan thr solver tokens logprobs seen tid sents = Inl ValueError)"
proof (induction sents arbitrary: seen tid)
  case Nil
  then show ?case by simp
next
  case (Cons sent rest)
  let ?tr = "match_tokens sent tokens 0 tid"
  let ?probs = "map uncertainty (slice_nat logprobs tid (Suc ?tr))"
  have pb: "\<forall>p \<in> set ?probs. lt p thr"
    using below slice_nat_subset[of logprobs tid "Suc ?tr"] by auto
  show ?case
  proof (cases "sentence_reduce solver ?probs")
    case (Inl e)
    with reduce_error[OF Inl] show ?thesis
      unfolding TokenRAG_scan_step by (simp add: bnd_e_def)
  next
    case (Inr p)
    from reduce_below[OF pb known Inr] Inr Cons.IH[of "seen @ [sent]" "Suc ?tr"] show ?thesis
      unfolding TokenRAG_scan_step by (simp add: bnd_e_def)
  qed
qed

lemma TokenRAG_scan_unknown:
  assumes "solver \<noteq> ''avg''" "solver \<noteq> ''max''" "solver \<noteq> ''min''" and "0 \<le> thr"
  shows "TokenRAG_scan thr solver tokens logprobs seen tid sents = Inr None"
proof (induction sents arbitrary: seen tid)
  case Nil
  then show ?case by simp
next
  case (Cons sent rest)
  show ?case
    unfolding TokenRAG_scan_step using assms Cons.IH
    by (simp add: sentence_reduce_unknown bnd_e_def gt_def)
qed

lemma EntityRAG_scan_below:
  assumes below: "\<forall>(sent, ents, ps) \<in> set items. \<forall>p \<in> set ps. lt (uncertainty p) thr"
    and known: "solver = ''avg'' \<or> solver = ''max'' \<or> solver = ''min'' \<or> 0 \<le> thr"
  shows "EntityRAG_scan thr solver seen items = Inr None"
  using below
proof (induction items arbitrary: seen)
  case Nil
  then show ?case by simp
next
  case (Cons item rest)
  obtain sent ents ps where item: "item = (sent, ents, ps)" by (cases item)
  from Cons.prems have rest: "\<forall>(sent, ents, ps) \<in> set rest. \<forall>p \<in> set ps. lt (uncertainty p) thr"
    by simp
  show ?case
  proof (cases "ps = []")
    case True
    with item Cons.IH[OF rest] show ?thesis by simp
  next
    case False
    have pb: "\<forall>p \<in> set (map uncertainty ps). lt p thr" using Cons.prems item by simp
    show ?thesis
    proof (cases "sentence_reduce solver (map uncertainty ps)")
      case (Inl e)
      with reduce_error[OF Inl] False show ?thesis by simp
    next
      case (Inr p)
      from reduce_below[OF pb known Inr] Inr item False Cons.IH[OF rest] show ?thesis
        by (simp add: bnd_e_def)
    qed
  qed
qed

lemma EntityRAG_scan_unknown:
  assumes "solver \<noteq> ''avg''" "solver \<noteq> ''max''" "solver \<noteq> ''min''" and "0 \<le> thr"
  shows "EntityRAG_scan thr solver seen items = Inr None"
proof (induction items arbitrary: seen)
  case Nil
  then show ?case by simp
next
  case (Cons item rest)
  obtain sent ents ps where item: "item = (sent, ents, ps)" by (cases item)
  show ?case
    using assms Cons.IH item
    by (simp add: sentence_reduce_unknown bnd_e_def gt_def Let_def)
qed


lemma TokenRAG_modifier_below:
  assumes "\<forall>v \<in> set logprobs. lt (uncertainty v) (hallucination_threshold self)"
    and "sentence_solver self = ''avg'' \<or> sentence_solver self = ''max''
         \<or> sentence_solver self = ''min'' \<or> 0 \<le> hallucination_threshold self"
  shows "TokenRAG_modifier be self text tokens logprobs = Inr (text, None, False)
         \<or> ((sentence_solver self = ''max'' \<or> sentence_solver self = ''min'')
             \<and> TokenRAG_modifier be self text tokens logprobs = Inl ValueError)"
  using TokenRAG_scan_below[OF assms, of tokens "[]" 0 "sentences_of be text"]
  by (auto simp: TokenRAG_modifier_def bnd_e_def)

lemma EntityRAG_modifier_below:
  assumes ep: "entity_probs be self text tokens logprobs = Inr eps"
    and below: "\<forall>ps \<in> set eps. \<forall>p \<in> set ps. lt (uncertainty p) (hallucination_threshold self)"
    and known: "sentence_solver self = ''avg'' \<or> sentence_solver self = ''max''
         \<or> sentence_solver self = ''min'' \<or> 0 \<le> hallucination_threshold self"
  shows "EntityRAG_modifier be self text tokens logprobs = Inr (text, None, False)"
proof -
  let ?items = "zip (sentences_of be text) (zip (map (nlp_ents be) (sentences_of be text)) eps)"
  have "\<forall>(sent, ents, ps) \<in> set ?items. \<forall>p \<in> set ps. lt (uncertainty p) (hallucination_threshold self)"
    using below by (auto dest!: set_zip_rightD)
  from EntityRAG_scan_below[OF this known, of "[]"] ep show ?thesis
    by (simp add: EntityRAG_modifier_def bnd_e_def Let_def)
qed

lemma entity_probs_unknown:
  assumes unk: "entity_solver self \<noteq> ''avg''" "entity_solver self \<noteq> ''max''"
      "entity_solver self \<noteq> ''min''" "entity_solver self \<noteq> ''first''"
    and ep: "entity_probs be self text tokens logprobs = Inr eps"
  shows "\<forall>ps \<in> set eps. \<forall>p \<in> set ps. p = Fl 0"
proof -
  have inner: "map_e (\<lambda>(el, er). entity_reduce (entity_solver self) (slice logprobs el (er + 1))) itv = Inr ps
               \<Longrightarrow> \<forall>p \<in> set ps. p = Fl 0" for itv ps
  proof (induction itv arbitrary: ps)
    case Nil
    then show ?case by simp
  next
    case (Cons i itv)
    then show ?case
      by (auto simp: bnd_e_def entity_reduce_unknown[OF unk] split: sum.splits prod.splits)
  qed
  have outer: "map_e (map_e (\<lambda>(el, er). entity_reduce (entity_solver self) (slice logprobs el (er + 1)))) itvs = Inr eps'
               \<Longrightarrow> \<forall>ps \<in> set eps'. \<forall>p \<in> set ps. p = Fl 0" for itvs eps'
  proof (induction itvs arbitrary: eps')
    case Nil
    then show ?case by simp
  next
    case (Cons i itvs)
    then show ?case
      using inner by (auto simp: bnd_e_def split: sum.splits)
  qed
  from ep obtain itvs where
    "map_e (map_e (\<lambda>(el, er). entity_reduce (entity_solver self) (slice logprobs el (er + 1)))) itvs = Inr eps"
    by (auto simp: entity_probs_def bnd_e_def Let_def split: sum.splits)
  then show ?thesis by (rule outer)
qed

lemma reduce_zeros:
  assumes "ps \<noteq> []" and "\<forall>p \<in> set ps. p = Fl 0"
  shows "sentence_reduce solver ps = Inr (Fl 0)"
proof -
  from assms(2) have nn: "\<not> list_ex is_nan ps"
    by (auto simp: list_ex_iff is_nan_def)
  from assms have vals: "set (map fl_val ps) = {0}"
    by (cases ps) (auto simp: fl_val_def)
  from assms(2) have "map fl_val ps = replicate (length ps) 0"
    by (induction ps) (auto simp: fl_val_def)
  then have "sum_list (map fl_val ps) = 0"
    by (metis sum_list_replicate mult_zero_right)
  with nn vals assms(1) show ?thesis
    by (simp add: sentence_reduce_def np_mean_def np_max_def np_min_def)
qed

lemma uncertainty_zero: "uncertainty (Fl 0) = Fl 0"
  by (simp add: uncertainty_def)

lemma EntityRAG_scan_zeros:
  assumes zeros: "\<forall>(sent, ents, ps) \<in> set items. \<forall>p \<in> set ps. p = Fl 0"
    and thr: "0 \<le> thr"
  shows "EntityRAG_scan thr solver seen items = Inr None"
  using zeros
proof (induction items arbitrary: seen)
  case Nil
  then show ?case by simp
next
  case (Cons item rest)
  obtain sent ents ps where item: "item = (sent, ents, ps)" by (cases item)
  from Cons.prems have rest: "\<forall>(sent, ents, ps) \<in> set rest. \<forall>p \<in> set ps. p = Fl 0"
    by simp
  from Cons.prems item have ps: "\<forall>p \<in> set ps. p = Fl 0" by simp
  show ?case
  proof (cases "ps = []")
    case True
    with item Cons.IH[OF rest] show ?thesis by simp
  next
    case False
    from ps have "\<forall>p \<in> set (map uncertainty ps). p = Fl 0"
      by (auto simp: uncertainty_zero)
    with False have "sentence_reduce solver (map uncertainty ps) = Inr (Fl 0)"
      by (intro reduce_zeros) auto
    with False item thr Cons.IH[OF rest] show ?thesis
      by (simp add: bnd_e_def gt_def)
  qed
qed

lemma TokenRAG_modifier_unknown:
  assumes "sentence_solver self \<noteq> ''avg''" "sentence_solver self \<noteq> ''max''"
    "sentence_solver self \<noteq> ''min''" and "0 \<le> hallucination_threshold self"
  shows "TokenRAG_modifier be self text tokens logprobs = Inr (text, None, False)"
  using TokenRAG_scan_unknown[OF assms, of tokens logprobs "[]" 0 "sentences_of be text"]
  by (simp add: TokenRAG_modifier_def bnd_e_def)

lemma EntityRAG_modifier_unknown:
  assumes unk: "(sentence_solver self \<noteq> ''avg'' \<and> sentence_solver self \<noteq> ''max''
            \<and> sentence_solver self \<noteq> ''min'')
        \<or> (entity_solver self \<noteq> ''avg'' \<and> entity_solver self \<noteq> ''max''
            \<and> entity_solver self \<noteq> ''min'' \<and> entity_solver self \<noteq> ''first'')"
    and thr: "0 \<le> hallucination_threshold self"
  shows "EntityRAG_modifier be self text tokens logprobs =
           (case entity_probs be self text tokens logprobs of
              Inl e \<Rightarrow> Inl e | Inr _ \<Rightarrow> Inr (text, None, False))"
proof (cases "entity_probs be self text tokens logprobs")
  case (Inl e)
  then show ?thesis by (simp add: EntityRAG_modifier_def bnd_e_def Let_def)
next
  case (Inr eps)
  let ?items = "zip (sentences_of be text) (zip (map (nlp_ents be) (sentences_of be text)) eps)"
  have "EntityRAG_scan (hallucination_threshold self) (sentence_solver self) [] ?items = Inr None"
    using unk
  proof
    assume "sentence_solver self \<noteq> ''avg'' \<and> sentence_solver self \<noteq> ''max''
            \<and> sentence_solver self \<noteq> ''min''"
    then show ?thesis using EntityRAG_scan_unknown thr by blast
  next
    assume "entity_solver self \<noteq> ''avg'' \<and> entity_solver self \<noteq> ''max''
            \<and> entity_solver self \<noteq> ''min'' \<and> entity_solver self \<noteq> ''first''"
    then have "\<forall>ps \<in> set eps. \<forall>p \<in> set ps. p = Fl 0"
      using entity_probs_unknown Inr by blast
    then have "\<forall>(sent, ents, ps) \<in> set ?items. \<forall>p \<in> set ps. p = Fl 0"
      by (auto dest!: set_zip_rightD)
    then show ?thesis using EntityRAG_scan_zeros thr by blast
  qed
  with Inr show ?thesis by (simp add: EntityRAG_modifier_def bnd_e_def Let_def)
qed


section \<open>The detectors over rounded arithmetic: lemmas\<close>

lemma uncertainty_fp_exact: "uncertainty_fp exact_numerics = uncertainty"
  by (rule ext) (simp add: uncertainty_fp_def uncertainty_def exact_numerics_def split: pyfloat.splits)

lemma sentence_reduce_fp_exact: "sentence_reduce_fp exact_numerics = sentence_reduce"
  by (intro ext)
     (simp add: sentence_reduce_fp_def sentence_reduce_def np_mean_fp_def np_mean_def
       exact_numerics_def)

lemma entity_reduce_fp_exact: "entity_reduce_fp exact_numerics = entity_reduce"
  by (intro ext)
     (simp add: entity_reduce_fp_def entity_reduce_def np_mean_fp_def np_mean_def
       exact_numerics_def)

lemma TokenRAG_scan_fp_exact:
  "TokenRAG_scan_fp exact_numerics thr solver tokens logprobs seen tid sents
     = TokenRAG_scan thr solver tokens logprobs seen tid sents"
  by (induction sents arbitrary: seen tid)
     (simp_all add: uncertainty_fp_exact sentence_reduce_fp_exact Let_def bnd_e_def
       split: sum.splits)

lemma TokenRAG_modifier_fp_exact: "TokenRAG_modifier_fp exact_numerics = TokenRAG_modifier"
  by (intro ext) (simp add: TokenRAG_modifier_fp_def TokenRAG_modifier_def TokenRAG_scan_fp_exact)

lemma EntityRAG_scan_fp_exact:
  "EntityRAG_scan_fp exact_numerics thr solver seen items = EntityRAG_scan thr solver seen items"
  by (induction items arbitrary: seen)
     (auto simp: uncertainty_fp_exact sentence_reduce_fp_exact Let_def bnd_e_def
       split: sum.splits)

lemma EntityRAG_modifier_fp_exact: "EntityRAG_modifier_fp exact_numerics = EntityRAG_modifier"
  by (intro ext)
     (simp add: EntityRAG_modifier_fp_def EntityRAG_modifier_def entity_probs_fp_def
       entity_probs_def entity_reduce_fp_exact EntityRAG_scan_fp_exact)

lemma sentence_reduce_fp_extremum:
  "solver \<noteq> ''avg'' \<Longrightarrow> sentence_reduce_fp nm solver ps = sentence_reduce solver ps"
  by (simp add: sentence_reduce_fp_def sentence_reduce_def)

lemma extremum_window:
  assumes solver: "solver = ''max'' \<or> solver = ''min''"
  shows "sentence_reduce_fp nm solver [] = Inl ValueError"
    and "ps \<noteq> [] \<Longrightarrow> \<forall>p \<in> set ps. lt p t \<Longrightarrow>
           \<exists>p. sentence_reduce_fp nm solver ps = Inr p \<and> \<not> gt p t"
proof -
  from solver have ne: "solver \<noteq> ''avg''" by auto
  from solver show "sentence_reduce_fp nm solver [] = Inl ValueError"
    by (auto simp: sentence_reduce_fp_def np_max_def np_min_def)
  assume ps: "ps \<noteq> []" and below: "\<forall>p \<in> set ps. lt p t"
  show "\<exists>p. sentence_reduce_fp nm solver ps = Inr p \<and> \<not> gt p t"
  proof (cases "sentence_reduce solver ps")
    case (Inl e)
    with reduce_error[OF Inl] ps show ?thesis by simp
  next
    case (Inr p)
    with reduce_below[OF below _ Inr] solver ne show ?thesis
      by (auto simp: sentence_reduce_fp_extremum)
  qed
qed

lemma mean_window:
  assumes mean: "\<forall>xs. xs \<noteq> [] \<and> (\<forall>x \<in> set xs. x < t) \<longrightarrow> fp_mean nm xs \<le> t"
    and below: "\<forall>p \<in> set ps. lt p t"
  shows "\<exists>p. sentence_reduce_fp nm ''avg'' ps = Inr p \<and> \<not> gt p t"
proof (cases "ps = []")
  case True
  then show ?thesis by (simp add: sentence_reduce_fp_def np_mean_fp_def gt_def)
next
  case False
  from below have nn: "\<not> list_ex is_nan ps"
    by (auto simp: list_ex_iff is_nan_def lt_def split: pyfloat.splits)
  from below have "\<forall>x \<in> set (map fl_val ps). x < t"
    by (auto simp: lt_def fl_val_def split: pyfloat.splits)
  with mean False have "fp_mean nm (map fl_val ps) \<le> t" by simp
  with False nn show ?thesis
    by (simp add: sentence_reduce_fp_def np_mean_fp_def gt_def)
qed

lemma unknown_window:
  assumes "solver \<noteq> ''avg''" "solver \<noteq> ''max''" "solver \<noteq> ''min''" "0 \<le> t"
  shows "\<exists>p. sentence_reduce_fp nm solver ps = Inr p \<and> \<not> gt p t"
  using assms by (simp add: sentence_reduce_fp_def gt_def)

lemma TokenRAG_scan_fp_step:
  "TokenRAG_scan_fp nm thr solver tokens logprobs seen tid (sent # rest) =
     bnd_e (sentence_reduce_fp nm solver
              (map (uncertainty_fp nm) (slice_nat logprobs tid (Suc (match_tokens sent tokens 0 tid)))))
       (\<lambda>p. if gt p thr
            then Inr (Some (join '' '' seen,
                   mark_units thr sent 0
                     (zip (map (uncertainty_fp nm)
                             (slice_nat logprobs tid (Suc (match_tokens sent tokens 0 tid))))
                        (slice_nat tokens tid (Suc (match_tokens sent tokens 0 tid))))))
            else TokenRAG_scan_fp nm thr solver tokens logprobs (seen @ [sent])
                   (Suc (match_tokens sent tokens 0 tid)) rest)"
  by (simp add: Let_def)

lemma TokenRAG_scan_fp_extremum:
  assumes below: "\<forall>v \<in> set logprobs. lt (uncertainty_fp nm v) thr"
    and solver: "solver = ''max'' \<or> solver = ''min''"
  shows "TokenRAG_scan_fp nm thr solver tokens logprobs seen tid sents =
           (if [] \<in> set (token_windows tokens logprobs tid sents) then Inl ValueError
            else Inr None)"
proof (induction sents arbitrary: seen tid)
  case Nil
  then show ?case by simp
next
  case (Cons sent rest)
  let ?w = "slice_nat logprobs tid (Suc (match_tokens sent tokens 0 tid))"
  show ?case
  proof (cases "?w = []")
    case True
    with extremum_window(1)[OF solver, of nm] show ?thesis
      unfolding TokenRAG_scan_fp_step by (simp add: bnd_e_def)
  next
    case False
    have "\<forall>p \<in> set (map (uncertainty_fp nm) ?w). lt p thr"
      using below slice_nat_subset[of logprobs tid "Suc (match_tokens sent tokens 0 tid)"]
      by auto
    with extremum_window(2)[OF solver, of "map (uncertainty_fp nm) ?w" thr nm] False
    obtain p where "sentence_reduce_fp nm solver (map (uncertainty_fp nm) ?w) = Inr p"
      and "\<not> gt p thr" by auto
    with False Cons.IH[of "seen @ [sent]" "Suc (match_tokens sent tokens 0 tid)"] show ?thesis
      unfolding TokenRAG_scan_fp_step by (simp add: bnd_e_def)
  qed
qed

lemma TokenRAG_scan_fp_quiet:
  assumes below: "\<forall>v \<in> set logprobs. lt (uncertainty_fp nm v) thr"
    and window: "\<And>ps. \<forall>p \<in> set ps. lt p thr \<Longrightarrow>
                   \<exists>p. sentence_reduce_fp nm solver ps = Inr p \<and> \<not> gt p thr"
  shows "TokenRAG_scan_fp nm thr solver tokens logprobs seen tid sents = Inr None"
proof (induction sents arbitrary: seen tid)
  case Nil
  then show ?case by simp
next
  case (Cons sent rest)
  let ?w = "slice_nat logprobs tid (Suc (match_tokens sent tokens 0 tid))"
  have "\<forall>p \<in> set (map (uncertainty_fp nm) ?w). lt p thr"
    using below slice_nat_subset[of logprobs tid "Suc (match_tokens sent tokens 0 tid)"]
    by auto
  from window[OF this] obtain p where
    "sentence_reduce_fp nm solver (map (uncertainty_fp nm) ?w) = Inr p" and "\<not> gt p thr" by auto
  with Cons.IH[of "seen @ [sent]" "Suc (match_tokens sent tokens 0 tid)"] show ?case
    unfolding TokenRAG_scan_fp_step by (simp add: bnd_e_def)
qed

lemma EntityRAG_scan_fp_quiet:
  assumes below: "\<forall>(sent, ents, ps) \<in> set items. \<forall>p \<in> set ps. lt (uncertainty_fp nm p) thr"
    and window: "\<And>ps. ps \<noteq> [] \<Longrightarrow> \<forall>p \<in> set ps. lt p thr \<Longrightarrow>
                   \<exists>p. sentence_reduce_fp nm solver ps = Inr p \<and> \<not> gt p thr"
  shows "EntityRAG_scan_fp nm thr solver seen items = Inr None"
  using below
proof (induction items arbitrary: seen)
  case Nil
  then show ?case by simp
next
  case (Cons item rest)
  obtain sent ents ps where item: "item = (sent, ents, ps)" by (cases item)
  from Cons.prems have rest:
    "\<forall>(sent, ents, ps) \<in> set rest. \<forall>p \<in> set ps. lt (uncertainty_fp nm p) thr" by simp
  show ?case
  proof (cases "ps = []")
    case True
    with item Cons.IH[OF rest] show ?thesis by simp
  next
    case False
    have "\<forall>p \<in> set (map (uncertainty_fp nm) ps). lt p thr" using Cons.prems item by simp
    from window[OF _ this] False obtain p where
      "sentence_reduce_fp nm solver (map (uncertainty_fp nm) ps) = Inr p" and "\<not> gt p thr"
      by auto
    with item False Cons.IH[OF rest] show ?thesis by (simp add: bnd_e_def)
  qed
qed


section \<open>The detectors: unknown policies and the absence of signal\<close>

text \<open>
  Claim C3. A policy name that is not recognised makes the reduction return \<open>0\<close>: for the
  sentence policy this is an uncertainty of \<open>0\<close>, for the entity policy a log-probability
  of \<open>0\<close>, hence again an uncertainty of \<open>0\<close>. With a threshold that is not negative
  \<^verbatim>\<open>TokenRAG.modifier\<close> then returns the text unflagged and raises nothing.
  \<^verbatim>\<open>EntityRAG.modifier\<close> returns the text unflagged whenever the computation of the entity
  probabilities (token alignment, entity intervals) returns; an exception raised there
  is propagated.
\<close>

theorem unknown_policy_never_flags:
  "(sentence_solver self \<noteq> ''avg'' \<and> sentence_solver self \<noteq> ''max''
      \<and> sentence_solver self \<noteq> ''min'' \<longrightarrow>
      sentence_reduce (sentence_solver self) probs = Inr (Fl 0))
   \<and> (entity_solver self \<noteq> ''avg'' \<and> entity_solver self \<noteq> ''max''
      \<and> entity_solver self \<noteq> ''min'' \<and> entity_solver self \<noteq> ''first'' \<longrightarrow>
      entity_reduce (entity_solver self) probs = Inr (Fl 0))
   \<and> (sentence_solver self \<noteq> ''avg'' \<and> sentence_solver self \<noteq> ''max''
      \<and> sentence_solver self \<noteq> ''min'' \<and> 0 \<le> hallucination_threshold self \<longrightarrow>
      TokenRAG_modifier be self text tokens logprobs = Inr (text, None, False))
   \<and> (((sentence_solver self \<noteq> ''avg'' \<and> sentence_solver self \<noteq> ''max''
            \<and> sentence_solver self \<noteq> ''min'')
        \<or> (entity_solver self \<noteq> ''avg'' \<and> entity_solver self \<noteq> ''max''
            \<and> entity_solver self \<noteq> ''min'' \<and> entity_solver self \<noteq> ''first''))
       \<and> 0 \<le> hallucination_threshold self \<longrightarrow>
      EntityRAG_modifier be self text tokens logprobs =
           (case entity_probs be self text tokens logprobs of
              Inl e \<Rightarrow> Inl e | Inr _ \<Rightarrow> Inr (text, None, False)))"
  using sentence_reduce_unknown[of "sentence_solver self" probs]
    entity_reduce_unknown[of "entity_solver self" probs]
    TokenRAG_modifier_unknown[of self be "text" tokens logprobs]
    EntityRAG_modifier_unknown[of self be "text" tokens logprobs]
  by blast

text \<open>
  Claim C3, counterexample. With the unknown policy \<^verbatim>\<open>median\<close> and the threshold \<open>-1\<close> the
  reduced value \<open>0\<close> exceeds the threshold: \<^verbatim>\<open>TokenRAG.modifier\<close> flags the sentence. With
  a token that does not occur in the text, \<^verbatim>\<open>EntityRAG.modifier\<close> fails its alignment
  assertion, whatever the policy.
\<close>

theorem unknown_policy_counterexample:
  "sentence_solver (median_config\<lparr>hallucination_threshold := - 1\<rparr>) = ''median''
   \<and> TokenRAG_modifier (example_backend (\<lambda>_. []))
       (median_config\<lparr>hallucination_threshold := - 1\<rparr>) ''Hi'' [''Hi''] [Fl 0]
     = Inr ('''', Some ''[xxx]'', True)
   \<and> EntityRAG_modifier (example_backend (\<lambda>_. [])) median_config ''Hi'' [''Yo''] [Fl 0]
     = Inl AssertionError"
proof -
  have s: "sentences_of (example_backend (\<lambda>_. [])) ''Hi'' = [''Hi'']"
    by (simp add: sentences_of_def example_backend_def strip_def is_space_def)
  have m: "match_tokens ''Hi'' [''Hi''] 0 0 = 1"
    by (simp add: match_tokens.simps find_str_def)
  have t: "TokenRAG_modifier (example_backend (\<lambda>_. []))
       (median_config\<lparr>hallucination_threshold := - 1\<rparr>) ''Hi'' [''Hi''] [Fl 0]
     = Inr ('''', Some ''[xxx]'', True)"
    by (simp add: TokenRAG_modifier_def s m median_config_def example_config_def
        slice_nat_def sentence_reduce_def uncertainty_def gt_def bnd_e_def
        find_str_def slice_from_def slice_to_def slice_def clamp_pos_def)
  have e: "EntityRAG_modifier (example_backend (\<lambda>_. [])) median_config ''Hi'' [''Yo''] [Fl 0]
     = Inl AssertionError"
    by (simp add: EntityRAG_modifier_def entity_probs_def s Let_def bnd_e_def
        find_str_def slice_from_def slice_def clamp_pos_def)
  show ?thesis using t e by (simp add: median_config_def)
qed

text \<open>
  Claim C3, an instance: policy \<^verbatim>\<open>median\<close>, threshold \<open>1/2\<close>, one token of log-probability
  \<open>-3\<close>.
\<close>

theorem unknown_policy_never_flags_witness:
  "TokenRAG_modifier (example_backend (\<lambda>_. [])) median_config ''Hi'' [''Hi''] [Fl (- 3)]
     = Inr (''Hi'', None, False)"
  using unknown_policy_never_flags[of median_config "[]" "example_backend (\<lambda>_. [])" "''Hi''"
      "[''Hi'']" "[Fl (- 3)]"]
  by (simp add: median_config_def example_config_def)

text \<open>
  Claim C4 says that a detector whose every uncertainty is below the threshold returns
  the text unflagged. \<^verbatim>\<open>TokenRAG.modifier\<close> does not always: the window of a sentence is
  \<^verbatim>\<open>logprobs[tid:tr+1]\<close>, \<open>tr\<close> being the token at which the matching stopped, and the next
  window starts at \<^verbatim>\<open>tr + 1\<close>; a later sentence can be left with an empty window, on which
  \<^verbatim>\<open>np.max\<close> and \<^verbatim>\<open>np.min\<close> raise \<^verbatim>\<open>ValueError\<close>. The theorem is stated for whatever numbers
  the rounded operations return (\<open>nm\<close>), the uncertainties being those the code computes.
  Under the policies \<^verbatim>\<open>max\<close> and \<^verbatim>\<open>min\<close>, \<^verbatim>\<open>TokenRAG.modifier\<close> raises \<^verbatim>\<open>ValueError\<close> exactly
  when one of the windows is empty, and returns the text unflagged otherwise. Under
  \<^verbatim>\<open>avg\<close> it returns the text unflagged, provided the mean \<^verbatim>\<open>np.mean\<close> computes for numbers
  below the threshold is not above the threshold; under an unknown policy it does for a
  threshold that is not negative. \<^verbatim>\<open>EntityRAG.modifier\<close>, which skips the sentences without
  entities, returns the text unflagged under the same conditions whenever the entity
  probabilities are computed.
\<close>

theorem detector_no_signal:
  "((\<forall>v \<in> set logprobs. lt (uncertainty_fp nm v) (hallucination_threshold self))
      \<and> (sentence_solver self = ''max'' \<or> sentence_solver self = ''min'') \<longrightarrow>
      TokenRAG_modifier_fp nm be self text tokens logprobs =
        (if [] \<in> set (token_windows tokens logprobs 0 (sentences_of be text))
         then Inl ValueError else Inr (text, None, False)))
   \<and> ((\<forall>v \<in> set logprobs. lt (uncertainty_fp nm v) (hallucination_threshold self))
      \<and> ((sentence_solver self = ''avg''
            \<and> (\<forall>xs. xs \<noteq> [] \<and> (\<forall>x \<in> set xs. x < hallucination_threshold self)
                   \<longrightarrow> fp_mean nm xs \<le> hallucination_threshold self))
          \<or> (sentence_solver self \<noteq> ''avg'' \<and> sentence_solver self \<noteq> ''max''
              \<and> sentence_solver self \<noteq> ''min'' \<and> 0 \<le> hallucination_threshold self)) \<longrightarrow>
      TokenRAG_modifier_fp nm be self text tokens logprobs = Inr (text, None, False))
   \<and> (entity_probs_fp nm be self text tokens logprobs = Inr eps
      \<and> (\<forall>ps \<in> set eps. \<forall>p \<in> set ps. lt (uncertainty_fp nm p) (hallucination_threshold self))
      \<and> (sentence_solver self = ''max'' \<or> sentence_solver self = ''min''
          \<or> (sentence_solver self = ''avg''
              \<and> (\<forall>xs. xs \<noteq> [] \<and> (\<forall>x \<in> set xs. x < hallucination_threshold self)
                     \<longrightarrow> fp_mean nm xs \<le> hallucination_threshold self))
          \<or> (sentence_solver self \<noteq> ''avg'' \<and> sentence_solver self \<noteq> ''max''
              \<and> sentence_solver self \<noteq> ''min'' \<and> 0 \<le> hallucination_threshold self)) \<longrightarrow>
      EntityRAG_modifier_fp nm be self text tokens logprobs = Inr (text, None, False))"
proof (intro conjI impI)
  assume h: "(\<forall>v \<in> set logprobs. lt (uncertainty_fp nm v) (hallucination_threshold self))
      \<and> (sentence_solver self = ''max'' \<or> sentence_solver self = ''min'')"
  then show "TokenRAG_modifier_fp nm be self text tokens logprobs =
        (if [] \<in> set (token_windows tokens logprobs 0 (sentences_of be text))
         then Inl ValueError else Inr (text, None, False))"
    using TokenRAG_scan_fp_extremum[of logprobs nm "hallucination_threshold self"
        "sentence_solver self" tokens "[]" 0 "sentences_of be text"]
    by (simp add: TokenRAG_modifier_fp_def bnd_e_def)
next
  assume h: "(\<forall>v \<in> set logprobs. lt (uncertainty_fp nm v) (hallucination_threshold self))
      \<and> ((sentence_solver self = ''avg''
            \<and> (\<forall>xs. xs \<noteq> [] \<and> (\<forall>x \<in> set xs. x < hallucination_threshold self)
                   \<longrightarrow> fp_mean nm xs \<le> hallucination_threshold self))
          \<or> (sentence_solver self \<noteq> ''avg'' \<and> sentence_solver self \<noteq> ''max''
              \<and> sentence_solver self \<noteq> ''min'' \<and> 0 \<le> hallucination_threshold self))"
  have window: "\<exists>p. sentence_reduce_fp nm (sentence_solver self) ps = Inr p
                  \<and> \<not> gt p (hallucination_threshold self)"
    if "\<forall>p \<in> set ps. lt p (hallucination_threshold self)" for ps
    using h mean_window[of "hallucination_threshold self" nm ps]
      unknown_window[of "sentence_solver self" "hallucination_threshold self" nm ps] that
    by auto
  from h have "TokenRAG_scan_fp nm (hallucination_threshold self) (sentence_solver self) tokens
                 logprobs [] 0 (sentences_of be text) = Inr None"
    by (intro TokenRAG_scan_fp_quiet window) auto
  then show "TokenRAG_modifier_fp nm be self text tokens logprobs = Inr (text, None, False)"
    by (simp add: TokenRAG_modifier_fp_def bnd_e_def)
next
  assume h: "entity_probs_fp nm be self text tokens logprobs = Inr eps
      \<and> (\<forall>ps \<in> set eps. \<forall>p \<in> set ps. lt (uncertainty_fp nm p) (hallucination_threshold self))
      \<and> (sentence_solver self = ''max'' \<or> sentence_solver self = ''min''
          \<or> (sentence_solver self = ''avg''
              \<and> (\<forall>xs. xs \<noteq> [] \<and> (\<forall>x \<in> set xs. x < hallucination_threshold self)
                     \<longrightarrow> fp_mean nm xs \<le> hallucination_threshold self))
          \<or> (sentence_solver self \<noteq> ''avg'' \<and> sentence_solver self \<noteq> ''max''
              \<and> sentence_solver self \<noteq> ''min'' \<and> 0 \<le> hallucination_threshold self))"
  have window: "\<exists>p. sentence_reduce_fp nm (sentence_solver self) ps = Inr p
                  \<and> \<not> gt p (hallucination_threshold self)"
    if "ps \<noteq> []" "\<forall>p \<in> set ps. lt p (hallucination_threshold self)" for ps
    using h mean_window[of "hallucination_threshold self" nm ps]
      unknown_window[of "sentence_solver self" "hallucination_threshold self" nm ps]
      extremum_window(2)[of "sentence_solver self" ps "hallucination_threshold self" nm] that
    by auto
  let ?items = "zip (sentences_of be text) (zip (map (nlp_ents be) (sentences_of be text)) eps)"
  from h have "\<forall>(sent, ents, ps) \<in> set ?items.
      \<forall>p \<in> set ps. lt (uncertainty_fp nm p) (hallucination_threshold self)"
    by (auto dest!: set_zip_rightD)
  then have "EntityRAG_scan_fp nm (hallucination_threshold self) (sentence_solver self) [] ?items
               = Inr None"
    by (intro EntityRAG_scan_fp_quiet window) auto
  with h show "EntityRAG_modifier_fp nm be self text tokens logprobs = Inr (text, None, False)"
    by (simp add: EntityRAG_modifier_fp_def bnd_e_def Let_def)
qed

lemma example_windows:
  "token_windows [''Hi'', ''.'', '' Yes''] [Fl 0, Fl 0, Fl 0] 0 [''Hi.'', ''Yes'']
     = [[Fl 0, Fl 0, Fl 0], []]"
  "token_windows [''Hi'', '' Bob''] [Fl 0, Fl 0] 0 [''Hi Bob''] = [[Fl 0, Fl 0]]"
  by (simp_all add: match_tokens.simps find_str_def slice_nat_def)

lemma example_sentences:
  "sentences_of (example_nlp [(''Hi.'', []), (''Yes'', [])]) ''Hi. Yes'' = [''Hi.'', ''Yes'']"
  "sentences_of (example_nlp [(''Hi Bob'', [''Bob''])]) ''Hi Bob'' = [''Hi Bob'']"
  by (simp_all add: sentences_of_def example_nlp_def example_backend_def strip_def is_space_def)

lemma example_entity_probs:
  "entity_probs_fp exact_numerics (example_nlp [(''Hi Bob'', [''Bob''])]) max_config ''Hi Bob''
     [''Hi'', '' Bob''] [Fl 0, Fl 0] = Inr [[Fl 0]]"
proof -
  have e: "nlp_ents (example_nlp [(''Hi Bob'', [''Bob''])]) ''Hi Bob'' = [''Bob'']"
    by (simp add: example_nlp_def example_backend_def)
  have r: "[0 .. 1] = [0, 1::int]" "[2 .. 5] = [2, 3, 4, 5::int]"
    by (simp_all add: upto.simps)
  have b: "belonging_of ''Hi Bob'' [- 1, - 1, - 1, - 1, - 1, - 1] 0 0 [''Hi'', '' Bob'']
           = Inr [0, 0, 1, 1, 1, 1]"
    by (simp add: find_str_def slice_from_def clamp_pos_def r setitem_def bnd_e_def
        numeral_eq_Suc)
  have i: "entity_intervals ''Hi Bob'' [0, 0, 1, 1, 1, 1] (find_str ''Hi Bob'' ''Hi Bob'') [''Bob'']
           = Inr [(1, 1)]"
    by (simp add: find_str_def slice_from_def clamp_pos_def getitem_def bnd_e_def)
  show ?thesis
    by (simp add: entity_probs_fp_def example_sentences e b i Let_def bnd_e_def max_config_def
        example_config_def entity_reduce_fp_def np_mean_fp_def exact_numerics_def slice_def
        clamp_pos_def is_nan_def fl_val_def
        del: belonging_of.simps entity_intervals.simps)
qed

text \<open>
  Claim C4, instances, with the exact operations and the policy \<^verbatim>\<open>max\<close>. The text
  \<^verbatim>\<open>Hi. Yes\<close> has two sentences; the first one consumes the tokens \<^verbatim>\<open>Hi\<close> and \<^verbatim>\<open>.\<close>, its
  window is all three log-probabilities and the window of the second sentence is empty:
  \<^verbatim>\<open>ValueError\<close>, although every uncertainty is 0. The text \<^verbatim>\<open>Hi Bob\<close> is one sentence with
  one entity: both detectors return it unflagged.
\<close>

theorem detector_no_signal_witness:
  "TokenRAG_modifier_fp exact_numerics (example_nlp [(''Hi.'', []), (''Yes'', [])]) max_config
     ''Hi. Yes'' [''Hi'', ''.'', '' Yes''] [Fl 0, Fl 0, Fl 0] = Inl ValueError
   \<and> TokenRAG_modifier_fp exact_numerics (example_nlp [(''Hi Bob'', [''Bob''])]) max_config
       ''Hi Bob'' [''Hi'', '' Bob''] [Fl 0, Fl 0] = Inr (''Hi Bob'', None, False)
   \<and> EntityRAG_modifier_fp exact_numerics (example_nlp [(''Hi Bob'', [''Bob''])]) max_config
       ''Hi Bob'' [''Hi'', '' Bob''] [Fl 0, Fl 0] = Inr (''Hi Bob'', None, False)"
proof -
  have c: "hallucination_threshold max_config = 1 / 2" "sentence_solver max_config = ''max''"
    by (simp_all add: max_config_def example_config_def)
  have u: "uncertainty_fp exact_numerics (Fl 0) = Fl 0"
    by (simp add: uncertainty_fp_def exact_numerics_def)
  from detector_no_signal[of "[Fl 0, Fl 0, Fl 0]" exact_numerics max_config
      "example_nlp [(''Hi.'', []), (''Yes'', [])]" "''Hi. Yes''" "[''Hi'', ''.'', '' Yes'']"]
  have a: "TokenRAG_modifier_fp exact_numerics (example_nlp [(''Hi.'', []), (''Yes'', [])])
     max_config ''Hi. Yes'' [''Hi'', ''.'', '' Yes''] [Fl 0, Fl 0, Fl 0] = Inl ValueError"
    by (simp add: c u lt_def example_sentences example_windows del: token_windows.simps)
  from detector_no_signal[of "[Fl 0, Fl 0]" exact_numerics max_config
      "example_nlp [(''Hi Bob'', [''Bob''])]" "''Hi Bob''" "[''Hi'', '' Bob'']" "[[Fl 0]]"]
    example_entity_probs
  have b: "TokenRAG_modifier_fp exact_numerics (example_nlp [(''Hi Bob'', [''Bob''])]) max_config
       ''Hi Bob'' [''Hi'', '' Bob''] [Fl 0, Fl 0] = Inr (''Hi Bob'', None, False)
   \<and> EntityRAG_modifier_fp exact_numerics (example_nlp [(''Hi Bob'', [''Bob''])]) max_config
       ''Hi Bob'' [''Hi'', '' Bob''] [Fl 0, Fl 0] = Inr (''Hi Bob'', None, False)"
    by (simp add: c u lt_def example_sentences example_windows del: token_windows.simps)
  from a b show ?thesis by simp
qed


section \<open>The attention of the generated tokens (generate_attn)\<close>

lemma transpose_columns:
  assumes "xs \<noteq> [] \<or> n = 0" and "\<forall>row \<in> set xs. length row = n"
  shows "transpose xs = map (\<lambda>i. map (\<lambda>row. row ! i) xs) [0 ..< n]"
proof -
  have "transpose xs = map (\<lambda>i. map (\<lambda>j. xs ! j ! i) [0 ..< length xs]) [0 ..< n]"
    using assms by (intro transpose_rectangle) auto
  moreover have "map (\<lambda>j. xs ! j ! i) [0 ..< length xs] = map (\<lambda>row. row ! i) xs" for i
    by (rule nth_equalityI) auto
  ultimately show ?thesis by simp
qed

lemma sum_dim1_rect:
  assumes "\<forall>head \<in> set atten. head \<noteq> [] \<and> (\<forall>row \<in> set head. length row = n)"
  shows "sum_dim1 atten = map (\<lambda>head. map (\<lambda>i. \<Sum>row\<leftarrow>head. row ! i) [0 ..< n]) atten"
  unfolding sum_dim1_def
proof (rule map_cong[OF refl])
  fix head assume "head \<in> set atten"
  with assms have "transpose head = map (\<lambda>i. map (\<lambda>row. row ! i) head) [0 ..< n]"
    by (intro transpose_columns) auto
  then show "map sum_list (transpose head) = map (\<lambda>i. \<Sum>row\<leftarrow>head. row ! i) [0 ..< n]"
    by (simp add: comp_def)
qed

lemma mean_dim0_rect:
  assumes "m \<noteq> []" and "\<forall>row \<in> set m. length row = n"
  shows "mean_dim0 m = map (\<lambda>i. (\<Sum>row\<leftarrow>m. row ! i) / real (length m)) [0 ..< n]"
  using transpose_columns[of m n] assms by (simp add: mean_dim0_def comp_def)



















section \<open>The attention weights and the entropies of generate_attn: the claims\<close>

lemma avg_closed_form:
  assumes heads: "atten \<noteq> []"
    and rect: "\<forall>head \<in> set atten. head \<noteq> [] \<and> (\<forall>row \<in> set head. length row = n)"
  shows "attention_of ''avg'' atten =
           Inr (map (\<lambda>i. (\<Sum>head\<leftarrow>atten. \<Sum>row\<leftarrow>head. row ! i) / real (length atten) / real (n - i))
                  [0 ..< n])"
proof -
  let ?m = "map (\<lambda>head. map (\<lambda>i. \<Sum>row\<leftarrow>head. row ! i) [0 ..< n]) atten"
  have s: "sum_dim1 atten = ?m" by (rule sum_dim1_rect[OF rect])
  have "mean_dim0 ?m = map (\<lambda>i. (\<Sum>row\<leftarrow>?m. row ! i) / real (length ?m)) [0 ..< n]"
    using heads by (intro mean_dim0_rect) auto
  moreover have "(\<Sum>row\<leftarrow>?m. row ! i) = (\<Sum>head\<leftarrow>atten. \<Sum>row\<leftarrow>head. row ! i)" if "i < n" for i
    using that by (simp add: comp_def)
  ultimately have m: "mean_dim0 ?m =
      map (\<lambda>i. (\<Sum>head\<leftarrow>atten. \<Sum>row\<leftarrow>head. row ! i) / real (length atten)) [0 ..< n]"
    by simp
  show ?thesis
    by (simp add: attention_of_def s m decay_def)
qed

lemma last_layer_read:
  assumes "attentions be batch = layers" "layers \<noteq> []" "last layers = atten # others"
  shows "last_layer_attention be batch = Inr atten"
proof -
  from assms(2) have "getitem layers (- 1) = Inr (last layers)"
    by (cases layers rule: rev_cases) (auto simp: getitem_def nth_append)
  with assms show ?thesis by (simp add: last_layer_attention_def bnd_e_def getitem_def)
qed

text \<open>
  Claim C2, as amended. Under the policy \<^verbatim>\<open>avg\<close>, \<^verbatim>\<open>generate_attn\<close> reads the attention of the
  last layer only (first batch item). When that tensor has at least one head, and every
  head at least one query position and \<open>n\<close> key positions, the weight of position \<open>i\<close> is
  the sum of the weights over the query positions of each head (not over the heads), then
  the mean over the heads (not over the layers), divided by the number \<open>n - i\<close> of
  remaining positions.
\<close>

theorem avg_attention_axes:
  assumes "attentions be batch = layers" and "layers \<noteq> []" and "last layers = atten # others"
    and "atten \<noteq> []"
    and "\<forall>head \<in> set atten. head \<noteq> [] \<and> (\<forall>row \<in> set head. length row = n)"
  shows "generate_attn_weights be batch ''avg'' =
           Inr (map (\<lambda>i. (\<Sum>head\<leftarrow>atten. \<Sum>row\<leftarrow>head. row ! i) / real (length atten) / real (n - i))
                  [0 ..< n])"
  using last_layer_read[OF assms(1-3)] avg_closed_form[OF assms(4,5)]
  by (simp add: generate_attn_weights_def bnd_e_def)

text \<open>
  Claim C2, an instance: two layers, the last one with two heads over two positions. The
  first layer, all weights 7, does not enter; the sums over the query positions are
  \<open>(3/2, 1/2)\<close> and \<open>(1, 1)\<close>, their mean over the two heads \<open>(5/4, 3/4)\<close>.
\<close>

theorem avg_attention_axes_witness:
  "generate_attn_weights two_layer_backend [[97, 98]] ''avg'' = Inr [5 / 8, 3 / 4]"
  using avg_attention_axes[of two_layer_backend "[[97, 98]]"
      "[[[[[7, 7], [7, 7]]]], [[[[1, 0], [1 / 2, 1 / 2]], [[1, 0], [0, 1]]]]]"
      "[[[1, 0], [1 / 2, 1 / 2]], [[1, 0], [0, 1]]]" "[]" 2]
  by (simp add: two_layer_backend_def upt_rec numeral_eq_Suc)

text \<open>
  Claim C2, counterexample: a single layer with two heads over one position, both weights
  1. The code returns the mean over the heads, 1; the sum over the heads, then the mean
  over the one layer, as the claim words it, is 2.
\<close>

theorem avg_attention_counterexample:
  "attentions two_head_backend [[97]] = [[[[[1]], [[1]]]]]
   \<and> generate_attn_weights two_head_backend [[97]] ''avg'' = Inr [1]
   \<and> spec_avg_attention [[[[1]], [[1]]]] = [[2]]"
  by (simp add: two_head_backend_def generate_attn_weights_def last_layer_attention_def
      getitem_def bnd_e_def attention_of_def sum_dim1_def mean_dim0_def decay_def
      spec_avg_attention_def sum_heads_def mean_layers_def)




end
